theory Spec2Isabelle
  imports Main
begin

section \<open>Exceptions, warnings and Python strings\<close>

text \<open>
  A Python exception is kept as its class name, whether that class derives from
  \<open>Exception\<close> (only those are caught by \<open>except Exception\<close>; \<open>KeyboardInterrupt\<close> and
  the like derive from \<open>BaseException\<close> alone), and its message text. A warning is its
  category name and its message text.
\<close>

datatype exc = Exc (exc_cls: string) (exc_is_Exception: bool) (exc_msg: string)

datatype warning = Warning (warn_cls: string) (warn_msg: string)

text \<open>
  A call of a collaborator is a value: the warnings it emitted, in order, and either the
  exception it raised (\<open>Inl\<close>) or what it returned (\<open>Inr\<close>).
\<close>

type_synonym 'a call = "warning list \<times> (exc + 'a)"

text \<open>
  Python's \<open>str.replace(old, new)\<close>: every non-overlapping occurrence of \<open>old\<close>, scanning
  from the left, becomes \<open>new\<close>; an empty \<open>old\<close> matches before every character and at the
  end.
\<close>

function str_replace :: "string \<Rightarrow> string \<Rightarrow> string \<Rightarrow> string" where
  "str_replace old new [] = (if old = [] then new else [])"
| "str_replace old new (c # cs) =
     (if old = [] then new @ c # str_replace old new cs
      else if take (length old) (c # cs) = old
        then new @ str_replace old new (drop (length old) (c # cs))
      else c # str_replace old new cs)"
  by pat_completeness auto
termination
  by (relation "measure (\<lambda>(old, new, s). length s)") auto

text \<open>
  Python's \<open>str(n)\<close> of a non-negative integer, as an f-string interpolates it: the decimal
  digits, most significant first, no leading zero.
\<close>

definition digit_char :: "nat \<Rightarrow> char" where
  "digit_char d = char_of (48 + d)"

function str_nat :: "nat \<Rightarrow> string" where
  "str_nat n = (if n < 10 then [digit_char n] else str_nat (n div 10) @ [digit_char (n mod 10)])"
  by pat_completeness auto
termination
  by (relation "measure id") auto

declare str_nat.simps [simp del]

section \<open>The data of \<open>beartype._check.checkmake\<close>\<close>

text \<open>
  \<open>BeartypeConf\<close> is declared outside the sources at hand; the factories read four of its
  fields: \<open>is_debug\<close> and the three violation policy switches \<open>_is_violation_door_warn\<close>,
  \<open>_is_violation_param_warn\<close>, \<open>_is_violation_return_warn\<close> (the leading underscore is
  dropped, Isabelle names start with a letter).
\<close>

record BeartypeConf =
  is_debug :: bool
  is_violation_door_warn :: bool
  is_violation_param_warn :: bool
  is_violation_return_warn :: bool

text \<open>
  The objects a lexical scope binds: the factories store the configuration, the type hint,
  \<open>warnings.warn\<close> and the two violation getters; everything the expression compiler binds
  itself (types, \<open>getrandbits\<close>, validators) is a \<open>ScopeOther\<close> with its description.
\<close>

datatype 'h scope_obj =
    ScopeConf BeartypeConf
  | ScopeHint 'h
  | ScopeWarn
  | ScopeGetFuncPithViolation
  | ScopeGetHintObjectViolation
  | ScopeOther string

type_synonym 'h LexicalScope = "string \<rightharpoonup> 'h scope_obj"

type_synonym TypeStack = "string list"

text \<open>\<open>CodeGenerated\<close>: the code snippet, its lexical scope and the relative forward references.\<close>

type_synonym 'h CodeGenerated = "string \<times> 'h LexicalScope \<times> string list"

text \<open>
  The string constants of \<open>checkmagic\<close>, \<open>_checksnip\<close> and \<open>dataerrmagic\<close> are declared
  outside the sources at hand, so they are parameters. The two snippets that are
  \<open>str.format\<close> templates are functions of their format arguments.
\<close>

record magic =
  ARG_NAME_CONF :: string
  ARG_NAME_GETRANDBITS :: string
  ARG_NAME_GET_VIOLATION :: string
  ARG_NAME_HINT :: string
  ARG_NAME_WARN :: string
  CODE_PITH_ROOT_NAME_PLACEHOLDER :: string
  FUNC_CHECKER_NAME_PREFIX :: string
  EXCEPTION_PLACEHOLDER :: string
  ARG_NAME_RETURN_REPR :: string
  CODE_CHECKER_SIGNATURE :: string
  CODE_RAISER_FUNC_PITH_CHECK_PREFIX :: string
  CODE_RAISER_HINT_OBJECT_CHECK_PREFIX :: string
  CODE_TESTER_CHECK_PREFIX :: string
  CODE_GET_FUNC_PITH_VIOLATION :: "string \<Rightarrow> string \<Rightarrow> string \<Rightarrow> string"
  CODE_GET_HINT_OBJECT_VIOLATION :: "string \<Rightarrow> string"
  CODE_GET_VIOLATION_CLS_STACK :: string
  CODE_GET_VIOLATION_RANDOM_INT :: string
  CODE_RAISE_VIOLATION :: string
  CODE_WARN_VIOLATION :: string

text \<open>
  The collaborators of the factory that live outside the sources at hand are parameters
  as well: each is a function of its arguments giving the warnings it emits and what it
  raises or returns. \<open>'h\<close> is the type of hints, \<open>'f\<close> the type of the function objects
  \<open>make_func\<close> creates.

  \<open>catch_warnings(record=True)\<close> leaves the warning filters of the caller in force: a
  warning emitted inside the block is recorded only when those filters let it through (a
  repeat from the same line under the default action, or a warning of an ignored category,
  is dropped and recorded nowhere). The filters are the parameter \<open>warning_filter\<close>: given
  the warnings emitted earlier in the block, whether the next one is let through.
\<close>

record ('h, 'f) env =
  die_unless_conf :: "BeartypeConf \<Rightarrow> unit call"
  sanify_hint_root_statement :: "'h \<Rightarrow> BeartypeConf \<Rightarrow> string \<Rightarrow> 'h call"
  is_hint_ignorable :: "'h \<Rightarrow> bool"
  make_check_expr :: "'h \<Rightarrow> BeartypeConf \<Rightarrow> TypeStack option \<Rightarrow> 'h CodeGenerated call"
  hint_repr :: "'h \<Rightarrow> string"
  make_func_signature :: "string \<Rightarrow> 'h LexicalScope \<Rightarrow> string \<Rightarrow> BeartypeConf \<Rightarrow> string call"
  make_func :: "string \<Rightarrow> string \<Rightarrow> 'h LexicalScope \<Rightarrow> string \<Rightarrow> bool \<Rightarrow> 'f call"
  warning_filter :: "warning list \<Rightarrow> warning \<Rightarrow> bool"

text \<open>
  What a factory returns: the singleton \<open>_func_checker_ignorable\<close>, or a function object
  that \<open>make_func\<close> created.
\<close>

datatype 'f checker = FuncCheckerIgnorable | FuncChecker 'f

text \<open>
  The process-wide state: the counter \<open>_func_checker_name_counter\<close> (the next integer
  \<open>itertools.count\<close> yields), the warnings issued to the caller (those issued outside every
  \<open>catch_warnings\<close> scope, in order), the two memo tables of the memoized factories, and a count of
  the calls made to the code factory passed to \<open>_make_func_checker\<close> (the call-count
  instrumentation the specification speaks of).
\<close>

record ('h, 'f) state =
  func_checker_name_counter :: nat
  warnings_shown :: "warning list"
  make_code_check_calls :: nat
  tester_cache :: "('h \<times> BeartypeConf) \<rightharpoonup> 'f checker"
  raiser_cache :: "('h \<times> BeartypeConf) \<rightharpoonup> 'f checker"

definition initial_state :: "('h, 'f) state" where
  "initial_state =
     \<lparr>func_checker_name_counter = 0, warnings_shown = [], make_code_check_calls = 0,
      tester_cache = Map.empty, raiser_cache = Map.empty\<rparr>"

section \<open>The code factories\<close>

text \<open>
  \<open>_make_code_raiser_violation(conf, func_scope, is_param)\<close>: the snippet handling a
  violation, and the scope as the function leaves it (the dictionary is updated in place).
  \<open>is_param\<close> is the tri-state flag: \<open>Some True\<close> for a parameter, \<open>Some False\<close> for a
  return, \<open>None\<close> for an object passed to \<open>die_if_unbearable()\<close>. The conditional
  expression is the source's: \<open>door if is_param is None else (param if is_param else ret)\<close>.
\<close>

definition make_code_raiser_violation ::
  "magic \<Rightarrow> BeartypeConf \<Rightarrow> 'h LexicalScope \<Rightarrow> bool option \<Rightarrow> string \<times> 'h LexicalScope" where
  "make_code_raiser_violation mg conf func_scope is_param =
     (let func_scope = func_scope(ARG_NAME_CONF mg \<mapsto> ScopeConf conf) in
      if (if is_param = None then is_violation_door_warn conf
          else if is_param = Some True then is_violation_param_warn conf
          else is_violation_return_warn conf)
      then (CODE_WARN_VIOLATION mg, func_scope(ARG_NAME_WARN mg \<mapsto> ScopeWarn))
      else (CODE_RAISE_VIOLATION mg, func_scope))"

text \<open>\<open>make_code_tester_check(hint, conf)\<close>.\<close>

definition make_code_tester_check ::
  "magic \<Rightarrow> ('h, 'f) env \<Rightarrow> 'h \<Rightarrow> BeartypeConf \<Rightarrow> 'h CodeGenerated call" where
  "make_code_tester_check mg env hint conf =
     (case make_check_expr env hint conf None of
        (ws, Inl e) \<Rightarrow> (ws, Inl e)
      | (ws, Inr (code_expr, func_scope, hint_refs_type_basename)) \<Rightarrow>
          (ws, Inr (CODE_TESTER_CHECK_PREFIX mg @ code_expr, func_scope,
                    hint_refs_type_basename)))"

text \<open>
  \<open>make_code_raiser_func_pith_check(hint, conf, cls_stack, is_param)\<close>. A class stack is
  truthy when it is a non-empty tuple.
\<close>

definition make_code_raiser_func_pith_check ::
  "magic \<Rightarrow> ('h, 'f) env \<Rightarrow> 'h \<Rightarrow> BeartypeConf \<Rightarrow> TypeStack option \<Rightarrow> bool option
     \<Rightarrow> 'h CodeGenerated call" where
  "make_code_raiser_func_pith_check mg env hint conf cls_stack is_param =
     (case make_check_expr env hint conf cls_stack of
        (ws, Inl e) \<Rightarrow> (ws, Inl e)
      | (ws, Inr (code_expr, func_scope, hint_refs_type_basename)) \<Rightarrow>
          (let arg_random_int =
                 (if ARG_NAME_GETRANDBITS mg \<in> dom func_scope
                  then CODE_GET_VIOLATION_RANDOM_INT mg else []);
               arg_cls_stack =
                 (if cls_stack \<noteq> None \<and> cls_stack \<noteq> Some []
                  then CODE_GET_VIOLATION_CLS_STACK mg else []);
               func_scope = func_scope(ARG_NAME_GET_VIOLATION mg \<mapsto> ScopeGetFuncPithViolation);
               code_get_violation =
                 CODE_GET_FUNC_PITH_VIOLATION mg arg_cls_stack arg_random_int
                   (CODE_PITH_ROOT_NAME_PLACEHOLDER mg);
               (code_handle_violation, func_scope) =
                 make_code_raiser_violation mg conf func_scope is_param
           in (ws, Inr (CODE_RAISER_FUNC_PITH_CHECK_PREFIX mg @ code_expr @ code_get_violation
                          @ code_handle_violation,
                        func_scope, hint_refs_type_basename))))"

text \<open>\<open>make_code_raiser_func_pep484_noreturn_check(conf)\<close>.\<close>

definition make_code_raiser_func_pep484_noreturn_check ::
  "magic \<Rightarrow> BeartypeConf \<Rightarrow> 'h CodeGenerated call" where
  "make_code_raiser_func_pep484_noreturn_check mg conf =
     (let func_scope = Map.empty(ARG_NAME_GET_VIOLATION mg \<mapsto> ScopeGetFuncPithViolation);
          code_get_violation =
            CODE_GET_FUNC_PITH_VIOLATION mg [] [] (ARG_NAME_RETURN_REPR mg);
          (code_handle_violation, func_scope) =
            make_code_raiser_violation mg conf func_scope (Some False)
      in ([], Inr (code_get_violation @ code_handle_violation, func_scope, [])))"

text \<open>\<open>make_code_raiser_hint_object_check(hint, conf)\<close>.\<close>

definition make_code_raiser_hint_object_check ::
  "magic \<Rightarrow> ('h, 'f) env \<Rightarrow> 'h \<Rightarrow> BeartypeConf \<Rightarrow> 'h CodeGenerated call" where
  "make_code_raiser_hint_object_check mg env hint conf =
     (case make_check_expr env hint conf None of
        (ws, Inl e) \<Rightarrow> (ws, Inl e)
      | (ws, Inr (code_expr, func_scope, hint_refs_type_basename)) \<Rightarrow>
          (let arg_random_int =
                 (if ARG_NAME_GETRANDBITS mg \<in> dom func_scope
                  then CODE_GET_VIOLATION_RANDOM_INT mg else []);
               func_scope = func_scope(ARG_NAME_GET_VIOLATION mg \<mapsto> ScopeGetHintObjectViolation);
               func_scope = func_scope(ARG_NAME_HINT mg \<mapsto> ScopeHint hint);
               code_get_violation = CODE_GET_HINT_OBJECT_VIOLATION mg arg_random_int;
               (code_handle_violation, func_scope) =
                 make_code_raiser_violation mg conf func_scope None
           in (ws, Inr (CODE_RAISER_HINT_OBJECT_CHECK_PREFIX mg @ code_expr @ code_get_violation
                          @ code_handle_violation,
                        func_scope, hint_refs_type_basename))))"

section \<open>The checker factory\<close>

text \<open>\<open>_func_checker_ignorable(obj)\<close>: the tester that unconditionally returns \<open>True\<close>.\<close>

definition func_checker_ignorable :: "'v \<Rightarrow> bool" where
  "func_checker_ignorable obj = True"

text \<open>
  What calling a checker does: it returns a boolean, returns \<open>None\<close>, raises a violation or
  emits a violation warning. The singleton is the function above; what a synthesized
  function does on a value, given the random integer drawn for that call, is the parameter
  \<open>run\<close>.
\<close>

datatype call_outcome = Returns_bool bool | Returns_None | Raises_violation | Warns_violation

definition call_checker ::
  "('f \<Rightarrow> nat \<Rightarrow> 'v \<Rightarrow> call_outcome) \<Rightarrow> 'f checker \<Rightarrow> nat \<Rightarrow> 'v \<Rightarrow> call_outcome" where
  "call_checker run chk random_int obj =
     (case chk of
        FuncCheckerIgnorable \<Rightarrow> Returns_bool (func_checker_ignorable obj)
      | FuncChecker f \<Rightarrow> run f random_int obj)"

text \<open>
  Modelled from the spec: \<open>get_hint_pep484585_ref_names_relative_to\<close> is defined outside
  the sources at hand. The factory calls it on the first relative forward reference only
  "to raise a reasonable exception" and ignores what it would return; its docstring names
  the exception \<open>BeartypeDecorHintForwardRefException\<close>, the specification calls it
  \<open>PortabilityError\<close> and says the factory fails fast with it. The message starts with the
  prefix passed and names the reference.
\<close>

definition get_hint_pep484585_ref_names_relative_to :: "string \<Rightarrow> string \<Rightarrow> exc + (string \<times> string)" where
  "get_hint_pep484585_ref_names_relative_to hint exception_prefix =
     Inl (Exc ''BeartypeDecorHintForwardRefException'' True
            (exception_prefix @ ''relative forward reference '' @ hint @ '' unresolvable.''))"

text \<open>
  Modelled from the spec: \<open>reraise_exception_placeholder\<close> is defined outside the sources
  at hand. The specification: errors propagate "unchanged ... with a placeholder in the
  message text replaced by a description of the concrete call site ... this substitution
  is the only transformation applied; underlying error identity/kind is preserved".
\<close>

definition reraise_exception_placeholder :: "magic \<Rightarrow> exc \<Rightarrow> string \<Rightarrow> exc" where
  "reraise_exception_placeholder mg exception target_str =
     Exc (exc_cls exception) (exc_is_Exception exception)
       (str_replace (EXCEPTION_PLACEHOLDER mg) target_str (exc_msg exception))"

text \<open>
  Modelled from the spec: \<open>reissue_warnings_placeholder\<close> is defined outside the sources at
  hand. The specification: captured warnings "are collected and re-issued ... with
  placeholder text in their messages replaced by a description of the concrete call
  site". The result is the list of warnings it issues, in the order captured.
\<close>

definition reissue_warnings_placeholder :: "magic \<Rightarrow> warning list \<Rightarrow> string \<Rightarrow> warning list" where
  "reissue_warnings_placeholder mg warnings target_str =
     map (\<lambda>w. Warning (warn_cls w)
                 (str_replace (EXCEPTION_PLACEHOLDER mg) target_str (warn_msg w))) warnings"

text \<open>
  What \<open>catch_warnings(record=True)\<close> records of the warnings emitted inside its block, in
  the order emitted: each warning the filters let through, given the warnings emitted
  before it.
\<close>

fun catch_warnings_record ::
  "(warning list \<Rightarrow> warning \<Rightarrow> bool) \<Rightarrow> warning list \<Rightarrow> warning list \<Rightarrow> warning list" where
  "catch_warnings_record lets_through emitted_before [] = []"
| "catch_warnings_record lets_through emitted_before (w # ws) =
     (if lets_through emitted_before w
      then w # catch_warnings_record lets_through (emitted_before @ [w]) ws
      else catch_warnings_record lets_through (emitted_before @ [w]) ws)"

text \<open>The name of the next synthesized function: the prefix and the counter's value.\<close>

definition func_checker_name :: "magic \<Rightarrow> nat \<Rightarrow> string" where
  "func_checker_name mg n = FUNC_CHECKER_NAME_PREFIX mg @ str_nat n"

text \<open>
  How control leaves the \<open>with catch_warnings(record=True)\<close> block of
  \<open>_make_func_checker\<close>: by an exception, by the \<open>return\<close> statement inside the block, or
  by falling off its end with the function \<open>make_func\<close> created. The two definitions of
  the block give the warnings emitted inside it; what the block records of them is decided
  by the filters, in \<open>make_func_checker\<close> below.
\<close>

datatype 'f block_exit = Raised exc | Returned "'f checker" | Completed 'f

text \<open>
  The second half of the block, from the call of the code factory to \<open>make_func\<close>; the
  hint is the sanified, unignorable one. The result is the warnings emitted, the state
  and how the block is left. \<open>next(_func_checker_name_counter)\<close> advances the counter
  before the signature is made, so the integer is spent even when a later step raises.
\<close>

definition make_func_checker_code ::
  "magic \<Rightarrow> ('h, 'f) env \<Rightarrow> 'h \<Rightarrow> BeartypeConf \<Rightarrow> ('h \<Rightarrow> BeartypeConf \<Rightarrow> 'h CodeGenerated call)
     \<Rightarrow> ('h, 'f) state \<Rightarrow> warning list \<times> ('h, 'f) state \<times> 'f block_exit" where
  "make_func_checker_code mg env hint conf make_code_check s =
     (let s = s\<lparr>make_code_check_calls := Suc (make_code_check_calls s)\<rparr> in
      case make_code_check hint conf of
        (ws3, Inl e) \<Rightarrow> (ws3, s, Raised e)
      | (ws3, Inr (code_check, func_scope, hint_refs_type_basename)) \<Rightarrow>
      (case (case hint_refs_type_basename of
               [] \<Rightarrow> Inr ()
             | ref # _ \<Rightarrow>
                 map_sum id (\<lambda>_. ())
                   (get_hint_pep484585_ref_names_relative_to ref
                      (EXCEPTION_PLACEHOLDER mg @ ''type hint '' @ hint_repr env hint @ '' ''))) of
         Inl e \<Rightarrow> (ws3, s, Raised e)
       | Inr _ \<Rightarrow>
      (let func_checker_name = func_checker_name mg (func_checker_name_counter s);
           s = s\<lparr>func_checker_name_counter := Suc (func_checker_name_counter s)\<rparr> in
       case make_func_signature env func_checker_name func_scope (CODE_CHECKER_SIGNATURE mg) conf of
         (ws4, Inl e) \<Rightarrow> (ws3 @ ws4, s, Raised e)
       | (ws4, Inr code_signature) \<Rightarrow>
      (case make_func env func_checker_name (code_signature @ code_check) func_scope
              ''die_if_unbearable() or is_bearable() type-checker'' (is_debug conf) of
         (ws5, Inl e) \<Rightarrow> (ws3 @ ws4 @ ws5, s, Raised e)
       | (ws5, Inr func_tester) \<Rightarrow> (ws3 @ ws4 @ ws5, s, Completed func_tester)))))"

text \<open>The whole block: validation, sanification, the ignorable short cut, then the code.\<close>

definition make_func_checker_block ::
  "magic \<Rightarrow> ('h, 'f) env \<Rightarrow> 'h \<Rightarrow> BeartypeConf \<Rightarrow> ('h \<Rightarrow> BeartypeConf \<Rightarrow> 'h CodeGenerated call)
     \<Rightarrow> ('h, 'f) state \<Rightarrow> warning list \<times> ('h, 'f) state \<times> 'f block_exit" where
  "make_func_checker_block mg env hint conf make_code_check s =
     (case die_unless_conf env conf of
        (ws1, Inl e) \<Rightarrow> (ws1, s, Raised e)
      | (ws1, Inr _) \<Rightarrow>
     (case sanify_hint_root_statement env hint conf (EXCEPTION_PLACEHOLDER mg) of
        (ws2, Inl e) \<Rightarrow> (ws1 @ ws2, s, Raised e)
      | (ws2, Inr hint) \<Rightarrow>
          if is_hint_ignorable env hint then (ws1 @ ws2, s, Returned FuncCheckerIgnorable)
          else (case make_func_checker_code mg env hint conf make_code_check s of
                  (ws, s, how) \<Rightarrow> (ws1 @ ws2 @ ws, s, how))))"

text \<open>
  \<open>_make_func_checker(hint, conf, make_code_check, exception_prefix)\<close>. Of the warnings
  emitted inside the block, \<open>warnings_issued\<close> holds those the filters let through; they
  reach nobody unless they are reissued. An exception leaves
  the block and the \<open>try\<close>; the \<open>except Exception\<close> clause reraises it through
  \<open>reraise_exception_placeholder\<close>, an exception that is not an \<open>Exception\<close> passes
  untouched. The \<open>return\<close> inside the block returns at once. Otherwise the recorded
  warnings, when there are any, are reissued and the function is returned.
\<close>

definition make_func_checker ::
  "magic \<Rightarrow> ('h, 'f) env \<Rightarrow> 'h \<Rightarrow> BeartypeConf \<Rightarrow> ('h \<Rightarrow> BeartypeConf \<Rightarrow> 'h CodeGenerated call)
     \<Rightarrow> string \<Rightarrow> ('h, 'f) state \<Rightarrow> (exc + 'f checker) \<times> ('h, 'f) state" where
  "make_func_checker mg env hint conf make_code_check exception_prefix s =
     (case make_func_checker_block mg env hint conf make_code_check s of
        (warnings_emitted, s, Raised exception) \<Rightarrow>
          (if exc_is_Exception exception
           then (Inl (reraise_exception_placeholder mg exception exception_prefix), s)
           else (Inl exception, s))
      | (warnings_emitted, s, Returned chk) \<Rightarrow> (Inr chk, s)
      | (warnings_emitted, s, Completed func_tester) \<Rightarrow>
          (let warnings_issued =
                 catch_warnings_record (warning_filter env) [] warnings_emitted
           in (Inr (FuncChecker func_tester),
               if warnings_issued \<noteq> []
               then s\<lparr>warnings_shown := warnings_shown s
                         @ reissue_warnings_placeholder mg warnings_issued exception_prefix\<rparr>
               else s)))"

text \<open>The default of the optional parameter \<open>exception_prefix\<close>.\<close>

definition exception_prefix_default :: string where
  "exception_prefix_default = ''die_if_unbearable() or is_bearable() ''"

section \<open>The memoized factories\<close>

text \<open>
  Modelled from the spec: the decorator \<open>callable_cached\<close> is defined outside the sources
  at hand. The specification: artifacts are "cached for process lifetime in an unbounded
  memo", "keyed by (hint, configuration)", values "never evicted"; a request is "check memo,
  else compute and insert", and the factory's last step is "memoize and return", which a
  request that fails never reaches. \<open>lookup\<close> reads the decorated function's memo table in
  the state and \<open>store\<close> writes it.
\<close>

definition callable_cached ::
  "('s \<Rightarrow> 'k \<rightharpoonup> 'a) \<Rightarrow> (('k \<rightharpoonup> 'a) \<Rightarrow> 's \<Rightarrow> 's) \<Rightarrow> ('k \<Rightarrow> 's \<Rightarrow> (exc + 'a) \<times> 's)
     \<Rightarrow> 'k \<Rightarrow> 's \<Rightarrow> (exc + 'a) \<times> 's" where
  "callable_cached lookup store func args s =
     (case lookup s args of
        Some return_value \<Rightarrow> (Inr return_value, s)
      | None \<Rightarrow>
          (case func args s of
             (Inl e, s') \<Rightarrow> (Inl e, s')
           | (Inr return_value, s') \<Rightarrow>
               (Inr return_value, store ((lookup s')(args \<mapsto> return_value)) s')))"

text \<open>\<open>make_func_tester(hint, conf)\<close>.\<close>

definition make_func_tester ::
  "magic \<Rightarrow> ('h, 'f) env \<Rightarrow> 'h \<Rightarrow> BeartypeConf \<Rightarrow> ('h, 'f) state
     \<Rightarrow> (exc + 'f checker) \<times> ('h, 'f) state" where
  "make_func_tester mg env hint conf =
     callable_cached tester_cache (\<lambda>m s. s\<lparr>tester_cache := m\<rparr>)
       (\<lambda>(hint, conf). make_func_checker mg env hint conf (make_code_tester_check mg env)
                          exception_prefix_default)
       (hint, conf)"

text \<open>\<open>make_func_raiser(hint, conf)\<close>.\<close>

definition make_func_raiser ::
  "magic \<Rightarrow> ('h, 'f) env \<Rightarrow> 'h \<Rightarrow> BeartypeConf \<Rightarrow> ('h, 'f) state
     \<Rightarrow> (exc + 'f checker) \<times> ('h, 'f) state" where
  "make_func_raiser mg env hint conf =
     callable_cached raiser_cache (\<lambda>m s. s\<lparr>raiser_cache := m\<rparr>)
       (\<lambda>(hint, conf). make_func_checker mg env hint conf
                          (make_code_raiser_hint_object_check mg env) exception_prefix_default)
       (hint, conf)"

text \<open>
  The states a process can be in after a state \<open>s\<close>: any number of calls of the two public
  factories, with any arguments. A reachable state is one after the initial state.
\<close>

inductive later :: "magic \<Rightarrow> ('h, 'f) env \<Rightarrow> ('h, 'f) state \<Rightarrow> ('h, 'f) state \<Rightarrow> bool"
  for mg :: magic and env :: "('h, 'f) env" and s :: "('h, 'f) state" where
  later_refl: "later mg env s s"
| later_tester: "later mg env s t \<Longrightarrow> later mg env s (snd (make_func_tester mg env hint conf t))"
| later_raiser: "later mg env s t \<Longrightarrow> later mg env s (snd (make_func_raiser mg env hint conf t))"

definition reachable :: "magic \<Rightarrow> ('h, 'f) env \<Rightarrow> ('h, 'f) state \<Rightarrow> bool" where
  "reachable mg env s = later mg env initial_state s"

section \<open>The validator factory \<open>IsArgumentative\<close>\<close>

text \<open>
  A callable, as the factory inspects it: not callable at all, C-based, or pure Python with
  the number of its flexible (positional or keyword, non-variadic) parameters and the
  names of its parameters in declaration order.
\<close>

datatype pyfunc = NotCallable | CBased | PurePython nat "string list"

text \<open>
  Modelled from the spec: \<open>die_unless_func_args_len_flexible_greater_or_equal\<close> is defined
  outside the sources at hand. The docstring of its caller \<open>die_unless_validator_tester\<close>
  says what it raises: the exception of the class passed if the object is not callable,
  a C-based callable, or a pure-Python callable accepting fewer flexible parameters than
  asked for.
\<close>

definition die_unless_func_args_len_flexible_greater_or_equal ::
  "pyfunc \<Rightarrow> nat \<Rightarrow> string \<Rightarrow> exc + unit" where
  "die_unless_func_args_len_flexible_greater_or_equal func func_args_len_flexible exception_cls =
     (case func of
        NotCallable \<Rightarrow> Inl (Exc exception_cls True ''not callable.'')
      | CBased \<Rightarrow> Inl (Exc exception_cls True ''not pure-Python callable.'')
      | PurePython n names \<Rightarrow>
          if func_args_len_flexible \<le> n then Inr ()
          else Inl (Exc exception_cls True ''accepts too few arguments.''))"

text \<open>\<open>die_unless_validator_tester(validator_tester)\<close>.\<close>

definition die_unless_validator_tester :: "pyfunc \<Rightarrow> exc + unit" where
  "die_unless_validator_tester validator_tester =
     die_unless_func_args_len_flexible_greater_or_equal validator_tester 1
       ''BeartypeValeSubscriptionException''"

text \<open>
  Modelled from the spec: \<open>get_func_arg_names\<close> is defined outside the sources at hand; it
  gives the names of the parameters of a pure-Python callable, in declaration order, and
  raises for any other object.
\<close>

definition get_func_arg_names :: "pyfunc \<Rightarrow> exc + string list" where
  "get_func_arg_names func =
     (case func of
        PurePython n names \<Rightarrow> Inr names
      | _ \<Rightarrow> Inl (Exc ''_BeartypeUtilCallableException'' True ''not pure-Python callable.''))"

text \<open>
  The rest of what \<open>__getitem__\<close> uses from outside the sources at hand: the base class's
  \<open>_die_unless_getitem_args_1\<close> and \<open>_basename\<close>, \<open>represent_func\<close>, and the name under
  which \<open>add_func_scope_attr\<close> binds an object (unique to that object).
\<close>

record vale_env =
  die_unless_getitem_args_1 :: "pyfunc \<Rightarrow> exc + unit"
  basename :: string
  represent_func :: "pyfunc \<Rightarrow> string"
  scope_attr_name :: "pyfunc \<Rightarrow> string"

text \<open>
  Modelled from the spec: \<open>add_func_scope_attr\<close> is defined outside the sources at hand.
  The specification: the validator callable is bound "into the scope under a uniquified
  name"; the name is returned and the scope updated.
\<close>

definition add_func_scope_attr ::
  "vale_env \<Rightarrow> pyfunc \<Rightarrow> (string \<rightharpoonup> pyfunc) \<Rightarrow> string \<times> (string \<rightharpoonup> pyfunc)" where
  "add_func_scope_attr venv attr func_scope =
     (scope_attr_name venv attr, func_scope(scope_attr_name venv attr \<mapsto> attr))"

text \<open>The local function \<open>generate_additional_arg_string(arg_names)\<close>, case by case.\<close>

fun generate_additional_arg_string :: "string list \<Rightarrow> string" where
  "generate_additional_arg_string [] = []"
| "generate_additional_arg_string [a] = '', '' @ a"
| "generate_additional_arg_string (a # b # rest) =
     '', '' @ a @ generate_additional_arg_string (b # rest)"

text \<open>The fields \<open>BeartypeValidator\<close> is constructed with.\<close>

record BeartypeValidator =
  is_valid :: pyfunc
  is_valid_code :: string
  is_valid_code_locals :: "string \<rightharpoonup> pyfunc"
  get_repr :: string
  is_valid_target_arg_name :: string
  is_valid_remaining_arg_names :: "string list"

text \<open>
  \<open>_IsArgumentativeFactory.__getitem__(is_valid)\<close>. \<open>all_args[0]\<close> of an empty tuple raises
  \<open>IndexError\<close>; \<open>get_repr\<close> is the string the deferred lambda would build.
\<close>

definition IsArgumentativeFactory_getitem :: "vale_env \<Rightarrow> pyfunc \<Rightarrow> exc + BeartypeValidator" where
  "IsArgumentativeFactory_getitem venv is_valid_arg =
     (case die_unless_getitem_args_1 venv is_valid_arg of
        Inl e \<Rightarrow> Inl e
      | Inr _ \<Rightarrow>
     (case die_unless_validator_tester is_valid_arg of
        Inl e \<Rightarrow> Inl e
      | Inr _ \<Rightarrow>
     (case get_func_arg_names is_valid_arg of
        Inl e \<Rightarrow> Inl e
      | Inr all_args \<Rightarrow>
     (case all_args of
        [] \<Rightarrow> Inl (Exc ''IndexError'' True ''tuple index out of range'')
      | target_arg # remaining_args \<Rightarrow>
          (let repr = basename venv @ ''['' @ represent_func venv is_valid_arg @ '']'';
               (is_valid_attr_name, code_locals) =
                 add_func_scope_attr venv is_valid_arg Map.empty;
               is_valid_code_header = is_valid_attr_name @ ''({obj}'';
               is_valid_code_args = generate_additional_arg_string remaining_args;
               is_valid_code_footer = '')''
           in Inr \<lparr>is_valid = is_valid_arg,
                    is_valid_code = is_valid_code_header @ is_valid_code_args @ is_valid_code_footer,
                    is_valid_code_locals = code_locals,
                    get_repr = repr,
                    is_valid_target_arg_name = target_arg,
                    is_valid_remaining_arg_names = remaining_args\<rparr>)))))"

section \<open>What a compiled check decides\<close>

text \<open>
  Modelled from the spec: the expression compiler \<open>make_check_expr\<close> and the evaluation of
  the code it generates are outside the sources at hand. The specification gives the
  canonical hints and what the compiled expression of each tests:
  a simple type is an \<open>isinstance\<close>-style membership test; a union is the short-circuiting
  OR of its members; a container is the origin-type test ANDed with a check of its
  elements, every element when the configuration selects the mode "all", otherwise exactly
  one element picked by the random integer drawn for the call; a forward reference is a
  deferred lookup and a custom validator is the validator's own check, both given here by
  the parameter \<open>external\<close>. The values are a small universe of Python objects.
\<close>

datatype PyObj = PyNone | PyInt int | PyStr string | PyList "PyObj list" | PyInstance string

fun py_type_name :: "PyObj \<Rightarrow> string" where
  "py_type_name PyNone = ''NoneType''"
| "py_type_name (PyInt i) = ''int''"
| "py_type_name (PyStr s) = ''str''"
| "py_type_name (PyList xs) = ''list''"
| "py_type_name (PyInstance cls) = cls"

fun py_items :: "PyObj \<Rightarrow> PyObj list" where
  "py_items (PyList xs) = xs"
| "py_items obj = []"

datatype CanonicalHint =
    Ignorable
  | SimpleType string
  | Union "CanonicalHint list"
  | Container string CanonicalHint
  | ForwardRef string string
  | CustomValidator string

fun compiled_check :: "bool \<Rightarrow> (CanonicalHint \<Rightarrow> PyObj \<Rightarrow> bool) \<Rightarrow> nat \<Rightarrow> CanonicalHint \<Rightarrow> PyObj \<Rightarrow> bool" where
  "compiled_check all_mode external random_int Ignorable obj = True"
| "compiled_check all_mode external random_int (SimpleType t) obj = (py_type_name obj = t)"
| "compiled_check all_mode external random_int (Union members) obj =
     (\<exists>h \<in> set members. compiled_check all_mode external random_int h obj)"
| "compiled_check all_mode external random_int (Container origin element_hint) obj =
     (py_type_name obj = origin \<and>
      (if all_mode
       then (\<forall>x \<in> set (py_items obj). compiled_check all_mode external random_int element_hint x)
       else (py_items obj = [] \<or>
             compiled_check all_mode external random_int element_hint
               (py_items obj ! (random_int mod length (py_items obj))))))"
| "compiled_check all_mode external random_int (ForwardRef name path) obj =
     external (ForwardRef name path) obj"
| "compiled_check all_mode external random_int (CustomValidator template) obj =
     external (CustomValidator template) obj"

text \<open>Whether a canonical hint has a container anywhere in it.\<close>

fun has_container :: "CanonicalHint \<Rightarrow> bool" where
  "has_container (Union members) = (\<exists>h \<in> set members. has_container h)"
| "has_container (Container origin element_hint) = True"
| "has_container h = False"

text \<open>
  Modelled from the spec: what calling a synthesized tester does. The function object
  evaluates the compiled check of the canonical hint it was made for (\<open>hint_of\<close>), with
  the random integer drawn for that call, and returns the boolean.
\<close>

definition tester_run ::
  "bool \<Rightarrow> (CanonicalHint \<Rightarrow> PyObj \<Rightarrow> bool) \<Rightarrow> ('f \<Rightarrow> CanonicalHint) \<Rightarrow> 'f \<Rightarrow> nat \<Rightarrow> PyObj
     \<Rightarrow> call_outcome" where
  "tester_run all_mode external hint_of f random_int obj =
     Returns_bool (compiled_check all_mode external random_int (hint_of f) obj)"

section \<open>A concrete instance\<close>

text \<open>
  Values for the constants and small collaborators over hints written as strings:
  \<open>Any\<close> is ignorable, \<open>bad\<close> is refused by sanification, \<open>List[Foo]\<close> compiles with a
  deprecation warning and the relative forward reference \<open>Foo\<close>, \<open>List[int]\<close> compiles with
  a deprecation warning, every other hint compiles silently. A function object is the name
  it was made with. The warning filters let a warning through the first time it is emitted
  in a block and drop its repeats.
\<close>

definition example_magic :: magic where
  "example_magic =
     \<lparr>ARG_NAME_CONF = ''conf'', ARG_NAME_GETRANDBITS = ''getrandbits'',
      ARG_NAME_GET_VIOLATION = ''get_violation'', ARG_NAME_HINT = ''hint'',
      ARG_NAME_WARN = ''warn'', CODE_PITH_ROOT_NAME_PLACEHOLDER = ''?pith'',
      FUNC_CHECKER_NAME_PREFIX = ''chk_'', EXCEPTION_PLACEHOLDER = ''$P '',
      ARG_NAME_RETURN_REPR = ''return'', CODE_CHECKER_SIGNATURE = ''def {}(obj):'',
      CODE_RAISER_FUNC_PITH_CHECK_PREFIX = ''if not '',
      CODE_RAISER_HINT_OBJECT_CHECK_PREFIX = ''if not '',
      CODE_TESTER_CHECK_PREFIX = ''return '',
      CODE_GET_FUNC_PITH_VIOLATION = (\<lambda>arg_cls_stack arg_random_int pith_name.
         '': v = get_violation('' @ pith_name @ arg_cls_stack @ arg_random_int @ '')''),
      CODE_GET_HINT_OBJECT_VIOLATION = (\<lambda>arg_random_int.
         '': v = get_violation(obj'' @ arg_random_int @ '')''),
      CODE_GET_VIOLATION_CLS_STACK = '', cls_stack'',
      CODE_GET_VIOLATION_RANDOM_INT = '', random_int'',
      CODE_RAISE_VIOLATION = ''; raise v'', CODE_WARN_VIOLATION = ''; warn(v)''\<rparr>"

definition example_env :: "(string, string) env" where
  "example_env =
     \<lparr>die_unless_conf = (\<lambda>conf. ([], Inr ())),
      sanify_hint_root_statement = (\<lambda>hint conf exception_prefix.
         if hint = ''bad''
         then ([], Inl (Exc ''BeartypeDecorHintNonpepException'' True
                          (exception_prefix @ ''type hint bad unsupported'')))
         else ([], Inr hint)),
      is_hint_ignorable = (\<lambda>hint. hint = ''Any''),
      make_check_expr = (\<lambda>hint conf cls_stack.
         if hint = ''List[Foo]''
         then ([Warning ''DeprecationWarning'' ''$P hint deprecated''],
               Inr (''is_list(obj)'', Map.empty, [''Foo'']))
         else if hint = ''List[int]''
         then ([Warning ''DeprecationWarning'' ''$P hint deprecated''],
               Inr (''is_list(obj)'', Map.empty, []))
         else ([], Inr (''is_'' @ hint @ ''(obj)'', Map.empty, []))),
      hint_repr = (\<lambda>hint. hint),
      make_func_signature = (\<lambda>func_name func_scope code_signature_format conf.
         ([], Inr (''def '' @ func_name @ ''(obj): ''))),
      make_func = (\<lambda>func_name func_code func_locals func_label is_debug.
         ([], Inr func_name)),
      warning_filter = (\<lambda>emitted_before w. w \<notin> set emitted_before)\<rparr>"

definition example_conf :: BeartypeConf where
  "example_conf =
     \<lparr>is_debug = False, is_violation_door_warn = False, is_violation_param_warn = True,
      is_violation_return_warn = False\<rparr>"

definition example_vale_env :: vale_env where
  "example_vale_env =
     \<lparr>die_unless_getitem_args_1 = (\<lambda>f. Inr ()), basename = ''IsArgumentative'',
      represent_func = (\<lambda>f. ''my_check''), scope_attr_name = (\<lambda>f. ''obj_1'')\<rparr>"

section \<open>Decimal names are distinct\<close>

lemma digit_char_inj: "a < 10 \<Longrightarrow> b < 10 \<Longrightarrow> digit_char a = digit_char b \<Longrightarrow> a = b"
proof -
  assume a: "a < 10" and b: "b < 10" and eq: "digit_char a = digit_char b"
  from eq have "(of_char (digit_char a) :: nat) = of_char (digit_char b)" by simp
  with a b show "a = b" by (simp add: digit_char_def)
qed

lemma str_nat_nonempty: "str_nat n \<noteq> []"
  by (subst str_nat.simps) simp

lemma str_nat_small: "n < 10 \<Longrightarrow> str_nat n = [digit_char n]"
  by (subst str_nat.simps) simp

lemma str_nat_large: "\<not> n < 10 \<Longrightarrow> str_nat n = str_nat (n div 10) @ [digit_char (n mod 10)]"
  by (subst str_nat.simps) simp

lemma str_nat_inj: "str_nat m = str_nat n \<Longrightarrow> m = n"
proof (induction m arbitrary: n rule: str_nat.induct)
  case (1 m)
  show ?case
  proof (cases "m < 10")
    case True
    show ?thesis
    proof (cases "n < 10")
      case True
      with \<open>m < 10\<close> "1.prems" show ?thesis
        by (simp add: str_nat_small digit_char_inj)
    next
      case False
      with \<open>m < 10\<close> "1.prems" str_nat_nonempty [of "n div 10"] show ?thesis
        by (auto simp: str_nat_small str_nat_large)
    qed
  next
    case False
    show ?thesis
    proof (cases "n < 10")
      case True
      with \<open>\<not> m < 10\<close> "1.prems" str_nat_nonempty [of "m div 10"] show ?thesis
        by (auto simp: str_nat_small str_nat_large)
    next
      case nbig: False
      from False nbig "1.prems"
      have eq: "str_nat (m div 10) = str_nat (n div 10)"
        and d: "digit_char (m mod 10) = digit_char (n mod 10)"
        by (simp_all add: str_nat_large)
      from "1.IH" [OF False eq] have "m div 10 = n div 10" .
      moreover from d have "m mod 10 = n mod 10"
        by (rule digit_char_inj [rotated 2]) simp_all
      ultimately show ?thesis
        by (metis div_mult_mod_eq)
    qed
  qed
qed

lemma func_checker_name_inj: "func_checker_name mg m = func_checker_name mg n \<longleftrightarrow> m = n"
  by (auto simp: func_checker_name_def dest: str_nat_inj)

section \<open>What one run of the factory changes and how it ends\<close>

lemma make_func_checker_code_frame:
  assumes "make_func_checker_code mg env hint conf mk s = (ws, s', how)"
  shows "tester_cache s' = tester_cache s \<and> raiser_cache s' = raiser_cache s
    \<and> warnings_shown s' = warnings_shown s
    \<and> make_code_check_calls s' = Suc (make_code_check_calls s)
    \<and> func_checker_name_counter s \<le> func_checker_name_counter s'"
  using assms
  by (auto simp: make_func_checker_code_def Let_def
           split: prod.splits sum.splits list.splits)

lemma make_func_checker_block_frame:
  assumes "make_func_checker_block mg env hint conf mk s = (ws, s', how)"
  shows "tester_cache s' = tester_cache s \<and> raiser_cache s' = raiser_cache s
    \<and> warnings_shown s' = warnings_shown s
    \<and> func_checker_name_counter s \<le> func_checker_name_counter s'"
  using assms
  by (auto simp: make_func_checker_block_def
           split: prod.splits sum.splits if_splits
           dest: make_func_checker_code_frame)

lemma make_func_checker_frame:
  assumes "make_func_checker mg env hint conf mk p s = (r, s')"
  shows "tester_cache s' = tester_cache s \<and> raiser_cache s' = raiser_cache s
    \<and> func_checker_name_counter s \<le> func_checker_name_counter s'"
  using assms
  by (auto simp: make_func_checker_def Let_def
           split: prod.splits block_exit.splits if_splits
           dest: make_func_checker_block_frame)

lemma make_func_checker_block_ignorable:
  assumes "die_unless_conf env conf = (ws1, Inr u)"
    and "sanify_hint_root_statement env hint conf (EXCEPTION_PLACEHOLDER mg) = (ws2, Inr hint')"
    and "is_hint_ignorable env hint'"
  shows "make_func_checker_block mg env hint conf mk s = (ws1 @ ws2, s, Returned FuncCheckerIgnorable)"
  using assms by (simp add: make_func_checker_block_def)

lemma make_func_checker_ignorable:
  assumes "die_unless_conf env conf = (ws1, Inr u)"
    and "sanify_hint_root_statement env hint conf (EXCEPTION_PLACEHOLDER mg) = (ws2, Inr hint')"
    and "is_hint_ignorable env hint'"
  shows "make_func_checker mg env hint conf mk p s = (Inr FuncCheckerIgnorable, s)"
  using make_func_checker_block_ignorable [OF assms]
  by (simp add: make_func_checker_def)

lemma make_func_checker_code_Completed:
  assumes "make_func_checker_code mg env hint conf mk s = (ws, s', Completed f)"
  shows "\<exists>ws3 code_check func_scope ws4 code_signature ws5.
      mk hint conf = (ws3, Inr (code_check, func_scope, []))
    \<and> make_func_signature env (func_checker_name mg (func_checker_name_counter s)) func_scope
          (CODE_CHECKER_SIGNATURE mg) conf = (ws4, Inr code_signature)
    \<and> make_func env (func_checker_name mg (func_checker_name_counter s))
          (code_signature @ code_check) func_scope
          ''die_if_unbearable() or is_bearable() type-checker'' (is_debug conf) = (ws5, Inr f)
    \<and> ws = ws3 @ ws4 @ ws5
    \<and> func_checker_name_counter s' = Suc (func_checker_name_counter s)"
  using assms
  by (auto simp: make_func_checker_code_def Let_def get_hint_pep484585_ref_names_relative_to_def
           split: prod.splits sum.splits list.splits)

lemma make_func_checker_code_not_Returned:
  "make_func_checker_code mg env hint conf mk s \<noteq> (ws, s', Returned chk)"
  by (auto simp: make_func_checker_code_def Let_def get_hint_pep484585_ref_names_relative_to_def
           split: prod.splits sum.splits list.splits)

lemma make_func_checker_code_Raised:
  assumes "make_func_checker_code mg env hint conf mk s = (ws, s', Raised e)"
  shows "(\<exists>ws3. mk hint conf = (ws3, Inl e))
    \<or> (\<exists>ws3 code_check func_scope ref refs.
          mk hint conf = (ws3, Inr (code_check, func_scope, ref # refs))
        \<and> get_hint_pep484585_ref_names_relative_to ref
            (EXCEPTION_PLACEHOLDER mg @ ''type hint '' @ hint_repr env hint @ '' '') = Inl e)
    \<or> (\<exists>ws3 code_check func_scope ws4.
          mk hint conf = (ws3, Inr (code_check, func_scope, []))
        \<and> make_func_signature env (func_checker_name mg (func_checker_name_counter s)) func_scope
            (CODE_CHECKER_SIGNATURE mg) conf = (ws4, Inl e))
    \<or> (\<exists>ws3 code_check func_scope ws4 code_signature ws5.
          mk hint conf = (ws3, Inr (code_check, func_scope, []))
        \<and> make_func_signature env (func_checker_name mg (func_checker_name_counter s)) func_scope
            (CODE_CHECKER_SIGNATURE mg) conf = (ws4, Inr code_signature)
        \<and> make_func env (func_checker_name mg (func_checker_name_counter s))
            (code_signature @ code_check) func_scope
            ''die_if_unbearable() or is_bearable() type-checker'' (is_debug conf) = (ws5, Inl e))"
  using assms
  by (auto simp: make_func_checker_code_def Let_def get_hint_pep484585_ref_names_relative_to_def
           split: prod.splits sum.splits list.splits)

lemma make_func_checker_code_refs:
  assumes "mk hint conf = (ws3, Inr (code_check, func_scope, ref # refs))"
  shows "make_func_checker_code mg env hint conf mk s =
     (ws3, s\<lparr>make_code_check_calls := Suc (make_code_check_calls s)\<rparr>,
      Raised (Exc ''BeartypeDecorHintForwardRefException'' True
         ((EXCEPTION_PLACEHOLDER mg @ ''type hint '' @ hint_repr env hint @ '' '')
            @ ''relative forward reference '' @ ref @ '' unresolvable.'')))"
  using assms
  by (simp add: make_func_checker_code_def Let_def get_hint_pep484585_ref_names_relative_to_def)

lemma make_func_checker_block_cases:
  "(\<exists>ws1 e. die_unless_conf env conf = (ws1, Inl e)
       \<and> make_func_checker_block mg env hint conf mk s = (ws1, s, Raised e))
 \<or> (\<exists>ws1 u ws2 e. die_unless_conf env conf = (ws1, Inr u)
       \<and> sanify_hint_root_statement env hint conf (EXCEPTION_PLACEHOLDER mg) = (ws2, Inl e)
       \<and> make_func_checker_block mg env hint conf mk s = (ws1 @ ws2, s, Raised e))
 \<or> (\<exists>ws1 u ws2 hint'. die_unless_conf env conf = (ws1, Inr u)
       \<and> sanify_hint_root_statement env hint conf (EXCEPTION_PLACEHOLDER mg) = (ws2, Inr hint')
       \<and> is_hint_ignorable env hint'
       \<and> make_func_checker_block mg env hint conf mk s = (ws1 @ ws2, s, Returned FuncCheckerIgnorable))
 \<or> (\<exists>ws1 u ws2 hint' ws s' how. die_unless_conf env conf = (ws1, Inr u)
       \<and> sanify_hint_root_statement env hint conf (EXCEPTION_PLACEHOLDER mg) = (ws2, Inr hint')
       \<and> \<not> is_hint_ignorable env hint'
       \<and> make_func_checker_code mg env hint' conf mk s = (ws, s', how)
       \<and> make_func_checker_block mg env hint conf mk s = (ws1 @ ws2 @ ws, s', how))"
  by (auto simp: make_func_checker_block_def split: prod.splits sum.splits)

section \<open>The memo tables along a run of the process\<close>

lemma make_func_tester_hit:
  "tester_cache s (hint, conf) = Some chk \<Longrightarrow> make_func_tester mg env hint conf s = (Inr chk, s)"
  by (simp add: make_func_tester_def callable_cached_def)

lemma make_func_raiser_hit:
  "raiser_cache s (hint, conf) = Some chk \<Longrightarrow> make_func_raiser mg env hint conf s = (Inr chk, s)"
  by (simp add: make_func_raiser_def callable_cached_def)

lemma make_func_tester_miss:
  "tester_cache s (hint, conf) = None \<Longrightarrow>
   make_func_tester mg env hint conf s =
     (case make_func_checker mg env hint conf (make_code_tester_check mg env)
             exception_prefix_default s of
        (Inl e, s') \<Rightarrow> (Inl e, s')
      | (Inr chk, s') \<Rightarrow> (Inr chk, s'\<lparr>tester_cache := (tester_cache s')((hint, conf) \<mapsto> chk)\<rparr>))"
  by (simp add: make_func_tester_def callable_cached_def)

lemma make_func_raiser_miss:
  "raiser_cache s (hint, conf) = None \<Longrightarrow>
   make_func_raiser mg env hint conf s =
     (case make_func_checker mg env hint conf (make_code_raiser_hint_object_check mg env)
             exception_prefix_default s of
        (Inl e, s') \<Rightarrow> (Inl e, s')
      | (Inr chk, s') \<Rightarrow> (Inr chk, s'\<lparr>raiser_cache := (raiser_cache s')((hint, conf) \<mapsto> chk)\<rparr>))"
  by (simp add: make_func_raiser_def callable_cached_def)

lemma make_func_tester_step:
  assumes "make_func_tester mg env hint conf s = (r, s')"
  shows "raiser_cache s' = raiser_cache s
    \<and> func_checker_name_counter s \<le> func_checker_name_counter s'
    \<and> (\<forall>k chk. tester_cache s k = Some chk \<longrightarrow> tester_cache s' k = Some chk)
    \<and> (\<forall>k chk. tester_cache s' k = Some chk \<longrightarrow> tester_cache s k = Some chk
          \<or> (k = (hint, conf) \<and> (\<exists>s1. make_func_checker mg env hint conf
                (make_code_tester_check mg env) exception_prefix_default s = (Inr chk, s1))))"
proof (cases "tester_cache s (hint, conf)")
  case (Some chk)
  with assms show ?thesis by (simp add: make_func_tester_hit)
next
  case None
  obtain r1 s1 where run: "make_func_checker mg env hint conf (make_code_tester_check mg env)
      exception_prefix_default s = (r1, s1)"
    by (cases "make_func_checker mg env hint conf (make_code_tester_check mg env)
      exception_prefix_default s")
  note fr = make_func_checker_frame [OF run]
  show ?thesis
  proof (cases r1)
    case (Inl e)
    with assms None run fr show ?thesis by (auto simp: make_func_tester_miss)
  next
    case (Inr chk)
    with assms None run fr show ?thesis
      by (auto simp: make_func_tester_miss split: if_splits)
  qed
qed

lemma make_func_raiser_step:
  assumes "make_func_raiser mg env hint conf s = (r, s')"
  shows "tester_cache s' = tester_cache s
    \<and> func_checker_name_counter s \<le> func_checker_name_counter s'
    \<and> (\<forall>k chk. raiser_cache s k = Some chk \<longrightarrow> raiser_cache s' k = Some chk)
    \<and> (\<forall>k chk. raiser_cache s' k = Some chk \<longrightarrow> raiser_cache s k = Some chk
          \<or> (k = (hint, conf) \<and> (\<exists>s1. make_func_checker mg env hint conf
                (make_code_raiser_hint_object_check mg env) exception_prefix_default s = (Inr chk, s1))))"
proof (cases "raiser_cache s (hint, conf)")
  case (Some chk)
  with assms show ?thesis by (simp add: make_func_raiser_hit)
next
  case None
  obtain r1 s1 where run: "make_func_checker mg env hint conf (make_code_raiser_hint_object_check mg env)
      exception_prefix_default s = (r1, s1)"
    by (cases "make_func_checker mg env hint conf (make_code_raiser_hint_object_check mg env)
      exception_prefix_default s")
  note fr = make_func_checker_frame [OF run]
  show ?thesis
  proof (cases r1)
    case (Inl e)
    with assms None run fr show ?thesis by (auto simp: make_func_raiser_miss)
  next
    case (Inr chk)
    with assms None run fr show ?thesis
      by (auto simp: make_func_raiser_miss split: if_splits)
  qed
qed

lemma later_counter:
  "later mg env s t \<Longrightarrow> func_checker_name_counter s \<le> func_checker_name_counter t"
proof (induction rule: later.induct)
  case later_refl
  show ?case by simp
next
  case (later_tester t hint conf)
  from make_func_tester_step [OF surjective_pairing, of mg env hint conf t] later_tester.IH
  show ?case by simp
next
  case (later_raiser t hint conf)
  from make_func_raiser_step [OF surjective_pairing, of mg env hint conf t] later_raiser.IH
  show ?case by simp
qed

lemma later_tester_cache_kept:
  "later mg env s t \<Longrightarrow> tester_cache s k = Some chk \<Longrightarrow> tester_cache t k = Some chk"
proof (induction rule: later.induct)
  case later_refl
  then show ?case by simp
next
  case (later_tester t hint conf)
  with make_func_tester_step [OF surjective_pairing, of mg env hint conf t]
  show ?case by blast
next
  case (later_raiser t hint conf)
  with make_func_raiser_step [OF surjective_pairing, of mg env hint conf t]
  show ?case by simp
qed

lemma later_raiser_cache_kept:
  "later mg env s t \<Longrightarrow> raiser_cache s k = Some chk \<Longrightarrow> raiser_cache t k = Some chk"
proof (induction rule: later.induct)
  case later_refl
  then show ?case by simp
next
  case (later_tester t hint conf)
  with make_func_tester_step [OF surjective_pairing, of mg env hint conf t]
  show ?case by simp
next
  case (later_raiser t hint conf)
  with make_func_raiser_step [OF surjective_pairing, of mg env hint conf t]
  show ?case by blast
qed

lemma reachable_tester_cache:
  "reachable mg env s \<Longrightarrow> tester_cache s (hint, conf) = Some chk \<Longrightarrow>
   \<exists>s0 s1. make_func_checker mg env hint conf (make_code_tester_check mg env)
      exception_prefix_default s0 = (Inr chk, s1)"
  unfolding reachable_def
proof (induction arbitrary: hint conf chk rule: later.induct)
  case later_refl
  then show ?case by (simp add: initial_state_def)
next
  case (later_tester t hint' conf')
  with make_func_tester_step [OF surjective_pairing, of mg env hint' conf' t]
  show ?case by blast
next
  case (later_raiser t hint' conf')
  with make_func_raiser_step [OF surjective_pairing, of mg env hint' conf' t]
  show ?case by simp
qed

lemma reachable_raiser_cache:
  "reachable mg env s \<Longrightarrow> raiser_cache s (hint, conf) = Some chk \<Longrightarrow>
   \<exists>s0 s1. make_func_checker mg env hint conf (make_code_raiser_hint_object_check mg env)
      exception_prefix_default s0 = (Inr chk, s1)"
  unfolding reachable_def
proof (induction arbitrary: hint conf chk rule: later.induct)
  case later_refl
  then show ?case by (simp add: initial_state_def)
next
  case (later_tester t hint' conf')
  with make_func_tester_step [OF surjective_pairing, of mg env hint' conf' t]
  show ?case by simp
next
  case (later_raiser t hint' conf')
  with make_func_raiser_step [OF surjective_pairing, of mg env hint' conf' t]
  show ?case by blast
qed

section \<open>The violation policy and the validator factory\<close>

lemma make_code_raiser_violation_code:
  "fst (make_code_raiser_violation mg conf func_scope is_param) =
     (if (case is_param of None \<Rightarrow> is_violation_door_warn conf
          | Some True \<Rightarrow> is_violation_param_warn conf
          | Some False \<Rightarrow> is_violation_return_warn conf)
      then CODE_WARN_VIOLATION mg else CODE_RAISE_VIOLATION mg)"
  by (cases is_param) (auto simp: make_code_raiser_violation_def Let_def)

text \<open>
  Claim C3. For every configuration and every value of the tri-state flag \<open>is_param\<close>, the
  snippet \<open>_make_code_raiser_violation\<close> generates is the warning snippet exactly when the
  switch of that call site is set (the parameter switch for \<open>True\<close>, the return switch for
  \<open>False\<close>, the door switch for \<open>None\<close>), and the raising snippet exactly when it is not;
  the other two switches play no part. The two snippets are distinct strings.
\<close>

theorem make_code_raiser_violation_policy:
  assumes "CODE_WARN_VIOLATION mg \<noteq> CODE_RAISE_VIOLATION mg"
  shows "(fst (make_code_raiser_violation mg conf func_scope is_param) = CODE_WARN_VIOLATION mg
            \<longleftrightarrow> (case is_param of None \<Rightarrow> is_violation_door_warn conf
                  | Some True \<Rightarrow> is_violation_param_warn conf
                  | Some False \<Rightarrow> is_violation_return_warn conf))
       \<and> (fst (make_code_raiser_violation mg conf func_scope is_param) = CODE_RAISE_VIOLATION mg
            \<longleftrightarrow> \<not> (case is_param of None \<Rightarrow> is_violation_door_warn conf
                  | Some True \<Rightarrow> is_violation_param_warn conf
                  | Some False \<Rightarrow> is_violation_return_warn conf))"
  using assms by (auto simp: make_code_raiser_violation_code)

theorem make_code_raiser_violation_policy_witness:
  "CODE_WARN_VIOLATION example_magic = ''; warn(v)''
   \<and> CODE_RAISE_VIOLATION example_magic = ''; raise v''
   \<and> fst (make_code_raiser_violation example_magic example_conf (Map.empty :: string LexicalScope) (Some True))
       = CODE_WARN_VIOLATION example_magic
   \<and> fst (make_code_raiser_violation example_magic example_conf (Map.empty :: string LexicalScope) (Some False))
       = CODE_RAISE_VIOLATION example_magic
   \<and> fst (make_code_raiser_violation example_magic example_conf (Map.empty :: string LexicalScope) None)
       = CODE_RAISE_VIOLATION example_magic"
proof -
  have d: "CODE_WARN_VIOLATION example_magic \<noteq> CODE_RAISE_VIOLATION example_magic"
    by (simp add: example_magic_def)
  have w: "CODE_WARN_VIOLATION example_magic = ''; warn(v)''"
    and r: "CODE_RAISE_VIOLATION example_magic = ''; raise v''"
    by (simp_all add: example_magic_def)
  have p: "is_violation_param_warn example_conf" "\<not> is_violation_return_warn example_conf"
    "\<not> is_violation_door_warn example_conf"
    by (simp_all add: example_conf_def)
  from make_code_raiser_violation_policy [OF d, of example_conf "Map.empty :: string LexicalScope" "Some True"] p
  have 1: "fst (make_code_raiser_violation example_magic example_conf (Map.empty :: string LexicalScope) (Some True))
       = CODE_WARN_VIOLATION example_magic" by simp
  from make_code_raiser_violation_policy [OF d, of example_conf "Map.empty :: string LexicalScope" "Some False"] p
  have 2: "fst (make_code_raiser_violation example_magic example_conf (Map.empty :: string LexicalScope) (Some False))
       = CODE_RAISE_VIOLATION example_magic" by simp
  from make_code_raiser_violation_policy [OF d, of example_conf "Map.empty :: string LexicalScope" None] p
  have 3: "fst (make_code_raiser_violation example_magic example_conf (Map.empty :: string LexicalScope) None)
       = CODE_RAISE_VIOLATION example_magic" by simp
  from w r 1 2 3 show ?thesis by blast
qed

lemma generate_additional_arg_string_concat:
  "generate_additional_arg_string names = concat (map (\<lambda>name. '', '' @ name) names)"
  by (induction names rule: generate_additional_arg_string.induct) simp_all

text \<open>
  Claim C10. For a pure-Python callable with at least one flexible parameter and the
  parameter names \<open>t, a1, ..., an\<close>, subscripting the factory returns a validator whose
  code is the scope name of the callable applied to \<open>{obj}\<close> followed by \<open>a1\<close> to \<open>an\<close> in
  order, whose scope binds exactly that name to the callable, whose target argument is
  \<open>t\<close> and whose remaining arguments are \<open>a1, ..., an\<close>; and
  \<open>generate_additional_arg_string\<close> of any list of names is the concatenation of
  \<open>", " + name\<close> over the names in order.
\<close>

theorem IsArgumentativeFactory_getitem_code:
  assumes "die_unless_getitem_args_1 venv (PurePython n (t # as)) = Inr ()"
    and "1 \<le> n"
  shows "(\<exists>v. IsArgumentativeFactory_getitem venv (PurePython n (t # as)) = Inr v
      \<and> is_valid_code v = scope_attr_name venv (PurePython n (t # as)) @ ''({obj}''
           @ concat (map (\<lambda>a. '', '' @ a) as) @ '')''
      \<and> is_valid_code_locals v =
           [scope_attr_name venv (PurePython n (t # as)) \<mapsto> PurePython n (t # as)]
      \<and> is_valid v = PurePython n (t # as)
      \<and> is_valid_target_arg_name v = t
      \<and> is_valid_remaining_arg_names v = as)
    \<and> generate_additional_arg_string names = concat (map (\<lambda>name. '', '' @ name) names)"
  using assms
  by (simp add: IsArgumentativeFactory_getitem_def die_unless_validator_tester_def
      die_unless_func_args_len_flexible_greater_or_equal_def get_func_arg_names_def
      add_func_scope_attr_def generate_additional_arg_string_concat)

theorem IsArgumentativeFactory_getitem_code_witness:
  "die_unless_getitem_args_1 example_vale_env (PurePython 2 [''out_list'', ''in_list'']) = Inr ()
   \<and> (1::nat) \<le> 2
   \<and> (\<exists>v. IsArgumentativeFactory_getitem example_vale_env
            (PurePython 2 [''out_list'', ''in_list'']) = Inr v
        \<and> is_valid_code v = ''obj_1({obj}, in_list)''
        \<and> is_valid_target_arg_name v = ''out_list''
        \<and> is_valid_remaining_arg_names v = [''in_list''])
   \<and> generate_additional_arg_string [''a'', ''b''] = '', a, b''"
proof -
  have h: "die_unless_getitem_args_1 example_vale_env (PurePython 2 [''out_list'', ''in_list'']) = Inr ()"
    by (simp add: example_vale_env_def)
  have n: "(1::nat) \<le> 2" by simp
  from IsArgumentativeFactory_getitem_code [OF h n, of "[''a'', ''b'']"]
  show ?thesis using h by (auto simp: example_vale_env_def)
qed

section \<open>How a run of the factory succeeds and fails\<close>

lemma make_func_checker_block_Returned:
  assumes "make_func_checker_block mg env hint conf mk s = (ws, s', Returned chk)"
  shows "chk = FuncCheckerIgnorable \<and> s' = s
    \<and> (\<exists>ws1 u ws2 hint'. die_unless_conf env conf = (ws1, Inr u)
          \<and> sanify_hint_root_statement env hint conf (EXCEPTION_PLACEHOLDER mg) = (ws2, Inr hint')
          \<and> is_hint_ignorable env hint')"
  using make_func_checker_block_cases [of env conf mg hint mk s] assms
  by (auto simp: make_func_checker_code_not_Returned)

lemma make_func_checker_FuncChecker:
  assumes "make_func_checker mg env hint conf mk p s = (Inr (FuncChecker f), s')"
  shows "\<exists>ws1 u ws2 hint' ws3 code_check func_scope ws4 code_signature ws5.
      die_unless_conf env conf = (ws1, Inr u)
    \<and> sanify_hint_root_statement env hint conf (EXCEPTION_PLACEHOLDER mg) = (ws2, Inr hint')
    \<and> \<not> is_hint_ignorable env hint'
    \<and> mk hint' conf = (ws3, Inr (code_check, func_scope, []))
    \<and> make_func_signature env (func_checker_name mg (func_checker_name_counter s)) func_scope
          (CODE_CHECKER_SIGNATURE mg) conf = (ws4, Inr code_signature)
    \<and> make_func env (func_checker_name mg (func_checker_name_counter s))
          (code_signature @ code_check) func_scope
          ''die_if_unbearable() or is_bearable() type-checker'' (is_debug conf) = (ws5, Inr f)
    \<and> func_checker_name_counter s' = Suc (func_checker_name_counter s)
    \<and> warnings_shown s' = warnings_shown s
          @ reissue_warnings_placeholder mg
              (catch_warnings_record (warning_filter env) [] (ws1 @ ws2 @ ws3 @ ws4 @ ws5)) p"
proof -
  from assms obtain ws s1 where blk:
    "make_func_checker_block mg env hint conf mk s = (ws, s1, Completed f)"
    and s': "s' = (if catch_warnings_record (warning_filter env) [] ws \<noteq> []
                   then s1\<lparr>warnings_shown := warnings_shown s1
                     @ reissue_warnings_placeholder mg
                         (catch_warnings_record (warning_filter env) [] ws) p\<rparr> else s1)"
    by (auto simp: make_func_checker_def Let_def
             split: prod.splits block_exit.splits if_splits
             dest: make_func_checker_block_Returned)
  from make_func_checker_block_cases [of env conf mg hint mk s] blk
  obtain ws1 u ws2 hint' wsc where
    d: "die_unless_conf env conf = (ws1, Inr u)"
    and sa: "sanify_hint_root_statement env hint conf (EXCEPTION_PLACEHOLDER mg) = (ws2, Inr hint')"
    and ni: "\<not> is_hint_ignorable env hint'"
    and code: "make_func_checker_code mg env hint' conf mk s = (wsc, s1, Completed f)"
    and ws: "ws = ws1 @ ws2 @ wsc"
    by auto
  from make_func_checker_code_Completed [OF code] make_func_checker_code_frame [OF code]
    d sa ni ws s'
  show ?thesis
    by (auto simp: reissue_warnings_placeholder_def)
qed


lemma make_func_checker_Inl:
  assumes "make_func_checker mg env hint conf mk p s = (Inl e', s')"
  shows "\<exists>ws e. make_func_checker_block mg env hint conf mk s = (ws, s', Raised e)
     \<and> e' = (if exc_is_Exception e then reraise_exception_placeholder mg e p else e)
     \<and> warnings_shown s' = warnings_shown s"
  using assms
  by (auto simp: make_func_checker_def Let_def split: prod.splits block_exit.splits if_splits
           dest: make_func_checker_block_frame)

lemma make_func_checker_refs:
  assumes "die_unless_conf env conf = (ws1, Inr u)"
    and "sanify_hint_root_statement env hint conf (EXCEPTION_PLACEHOLDER mg) = (ws2, Inr hint')"
    and "\<not> is_hint_ignorable env hint'"
    and "mk hint' conf = (ws3, Inr (code_check, func_scope, ref # refs))"
  shows "\<exists>e. make_func_checker mg env hint conf mk p s =
            (Inl e, s\<lparr>make_code_check_calls := Suc (make_code_check_calls s)\<rparr>)
        \<and> exc_cls e = ''BeartypeDecorHintForwardRefException''"
  using assms make_func_checker_code_refs [where mk = mk and hint = hint' and conf = conf
      and mg = mg and env = env and s = s, OF assms(4)]
  by (simp add: make_func_checker_def make_func_checker_block_def
      reraise_exception_placeholder_def)

lemma make_func_tester_stores:
  assumes "make_func_tester mg env hint conf s = (Inr chk, s')"
  shows "tester_cache s' (hint, conf) = Some chk"
proof (cases "tester_cache s (hint, conf)")
  case None
  with assms show ?thesis
    by (auto simp: make_func_tester_miss split: prod.splits sum.splits)
next
  case (Some c)
  with assms show ?thesis by (simp add: make_func_tester_hit)
qed

section \<open>Ignorable hints and forward references\<close>

lemma call_checker_ignorable:
  "call_checker run FuncCheckerIgnorable random_int obj = Returns_bool True"
  by (simp add: call_checker_def func_checker_ignorable_def)

lemma reachable_tester_cache_ignorable:
  assumes "reachable mg env s"
    and "die_unless_conf env conf = (ws1, Inr u)"
    and "sanify_hint_root_statement env hint conf (EXCEPTION_PLACEHOLDER mg) = (ws2, Inr hint')"
    and "is_hint_ignorable env hint'"
    and "tester_cache s (hint, conf) = Some chk"
  shows "chk = FuncCheckerIgnorable"
proof -
  from reachable_tester_cache [OF assms(1) assms(5)] obtain s0 s1 where
    "make_func_checker mg env hint conf (make_code_tester_check mg env)
       exception_prefix_default s0 = (Inr chk, s1)" by blast
  with make_func_checker_ignorable [OF assms(2-4), of "make_code_tester_check mg env"
      exception_prefix_default s0]
  show ?thesis by simp
qed

lemma reachable_raiser_cache_ignorable:
  assumes "reachable mg env s"
    and "die_unless_conf env conf = (ws1, Inr u)"
    and "sanify_hint_root_statement env hint conf (EXCEPTION_PLACEHOLDER mg) = (ws2, Inr hint')"
    and "is_hint_ignorable env hint'"
    and "raiser_cache s (hint, conf) = Some chk"
  shows "chk = FuncCheckerIgnorable"
proof -
  from reachable_raiser_cache [OF assms(1) assms(5)] obtain s0 s1 where
    "make_func_checker mg env hint conf (make_code_raiser_hint_object_check mg env)
       exception_prefix_default s0 = (Inr chk, s1)" by blast
  with make_func_checker_ignorable [OF assms(2-4), of "make_code_raiser_hint_object_check mg env"
      exception_prefix_default s0]
  show ?thesis by simp
qed

lemma make_func_tester_ignorable_result:
  assumes "reachable mg env s"
    and "die_unless_conf env conf = (ws1, Inr u)"
    and "sanify_hint_root_statement env hint conf (EXCEPTION_PLACEHOLDER mg) = (ws2, Inr hint')"
    and "is_hint_ignorable env hint'"
  shows "\<exists>s'. make_func_tester mg env hint conf s = (Inr FuncCheckerIgnorable, s')
     \<and> make_code_check_calls s' = make_code_check_calls s
     \<and> func_checker_name_counter s' = func_checker_name_counter s
     \<and> warnings_shown s' = warnings_shown s"
proof (cases "tester_cache s (hint, conf)")
  case None
  with make_func_checker_ignorable [OF assms(2-4), of "make_code_tester_check mg env"
      exception_prefix_default s]
  show ?thesis by (simp add: make_func_tester_miss)
next
  case (Some chk)
  with reachable_tester_cache_ignorable [OF assms this] show ?thesis
    by (simp add: make_func_tester_hit)
qed

lemma make_func_raiser_ignorable_result:
  assumes "reachable mg env s"
    and "die_unless_conf env conf = (ws1, Inr u)"
    and "sanify_hint_root_statement env hint conf (EXCEPTION_PLACEHOLDER mg) = (ws2, Inr hint')"
    and "is_hint_ignorable env hint'"
  shows "\<exists>s'. make_func_raiser mg env hint conf s = (Inr FuncCheckerIgnorable, s')
     \<and> make_code_check_calls s' = make_code_check_calls s
     \<and> func_checker_name_counter s' = func_checker_name_counter s
     \<and> warnings_shown s' = warnings_shown s"
proof (cases "raiser_cache s (hint, conf)")
  case None
  with make_func_checker_ignorable [OF assms(2-4), of "make_code_raiser_hint_object_check mg env"
      exception_prefix_default s]
  show ?thesis by (simp add: make_func_raiser_miss)
next
  case (Some chk)
  with reachable_raiser_cache_ignorable [OF assms this] show ?thesis
    by (simp add: make_func_raiser_hit)
qed

text \<open>
  Claim C1. In every reachable state, for a hint that sanifies to an ignorable hint under
  a configuration that passes validation, \<open>make_func_tester\<close> returns a checker that
  returns \<open>True\<close> on every object whatever, the count of calls of the code factory is what
  it was before the request, and \<open>_make_func_checker\<close> itself, with any code factory and
  any prefix, returns the singleton and leaves the state as it found it.
\<close>

theorem make_func_tester_ignorable:
  assumes "reachable mg env s"
    and "die_unless_conf env conf = (ws1, Inr ())"
    and "sanify_hint_root_statement env hint conf (EXCEPTION_PLACEHOLDER mg) = (ws2, Inr hint')"
    and "is_hint_ignorable env hint'"
  shows "\<exists>chk s'. make_func_tester mg env hint conf s = (Inr chk, s')
     \<and> (\<forall>run random_int obj. call_checker run chk random_int obj = Returns_bool True)
     \<and> make_code_check_calls s' = make_code_check_calls s
     \<and> (\<forall>make_code_check p.
           make_func_checker mg env hint conf make_code_check p s = (Inr FuncCheckerIgnorable, s))"
  using make_func_tester_ignorable_result [OF assms] make_func_checker_ignorable [OF assms(2-4)]
  by (auto simp: call_checker_ignorable)

lemma example_reachable_initial:
  "reachable example_magic example_env initial_state"
  by (simp add: reachable_def later_refl)

theorem make_func_tester_ignorable_witness:
  "reachable example_magic example_env initial_state
   \<and> die_unless_conf example_env example_conf = ([], Inr ())
   \<and> sanify_hint_root_statement example_env ''Any'' example_conf
        (EXCEPTION_PLACEHOLDER example_magic) = ([], Inr ''Any'')
   \<and> is_hint_ignorable example_env ''Any''
   \<and> (\<exists>chk s'. make_func_tester example_magic example_env ''Any'' example_conf initial_state
          = (Inr chk, s')
        \<and> (\<forall>run. call_checker run chk 0 PyNone = Returns_bool True
              \<and> call_checker run chk 0 (PyInt 0) = Returns_bool True
              \<and> call_checker run chk 0 (PyInstance ''Custom'') = Returns_bool True)
        \<and> make_code_check_calls s' = 0)"
proof -
  have d: "die_unless_conf example_env example_conf = ([], Inr ())"
    and sa: "sanify_hint_root_statement example_env ''Any'' example_conf
        (EXCEPTION_PLACEHOLDER example_magic) = ([], Inr ''Any'')"
    and ig: "is_hint_ignorable example_env ''Any''"
    by (simp_all add: example_env_def)
  from make_func_tester_ignorable [OF example_reachable_initial d sa ig]
  obtain chk s' where
    1: "make_func_tester example_magic example_env ''Any'' example_conf initial_state = (Inr chk, s')"
    and 2: "\<forall>(run :: string \<Rightarrow> nat \<Rightarrow> PyObj \<Rightarrow> call_outcome) random_int obj.
              call_checker run chk random_int obj = Returns_bool True"
    and 3: "make_code_check_calls s' = make_code_check_calls (initial_state :: (string, string) state)"
    by blast
  from 3 have 4: "make_code_check_calls s' = 0" by (simp add: initial_state_def)
  from example_reachable_initial d sa ig 1 2 4 show ?thesis by blast
qed

text \<open>
  Claim C9. In every reachable state, for a hint that sanifies to an ignorable hint under
  a configuration that passes validation, whatever its policy switches,
  \<open>make_func_raiser\<close> returns the singleton \<open>_func_checker_ignorable\<close>, the same object
  \<open>make_func_tester\<close> returns; called on any object it returns \<open>True\<close>, so it neither
  returns \<open>None\<close> nor raises a violation nor emits a warning.
\<close>

theorem make_func_raiser_ignorable:
  assumes "reachable mg env s"
    and "die_unless_conf env conf = (ws1, Inr ())"
    and "sanify_hint_root_statement env hint conf (EXCEPTION_PLACEHOLDER mg) = (ws2, Inr hint')"
    and "is_hint_ignorable env hint'"
  shows "fst (make_func_raiser mg env hint conf s) = Inr FuncCheckerIgnorable
     \<and> fst (make_func_raiser mg env hint conf s) = fst (make_func_tester mg env hint conf s)
     \<and> warnings_shown (snd (make_func_raiser mg env hint conf s)) = warnings_shown s
     \<and> (\<forall>run random_int (obj :: 'v).
           call_checker run FuncCheckerIgnorable random_int obj = Returns_bool True
         \<and> call_checker run FuncCheckerIgnorable random_int obj \<noteq> Returns_None
         \<and> call_checker run FuncCheckerIgnorable random_int obj \<noteq> Raises_violation
         \<and> call_checker run FuncCheckerIgnorable random_int obj \<noteq> Warns_violation)"
  using make_func_raiser_ignorable_result [OF assms] make_func_tester_ignorable_result [OF assms]
  by (auto simp: call_checker_ignorable)

theorem make_func_raiser_ignorable_witness:
  "reachable example_magic example_env initial_state
   \<and> die_unless_conf example_env (example_conf\<lparr>is_violation_door_warn := True\<rparr>) = ([], Inr ())
   \<and> sanify_hint_root_statement example_env ''Any'' (example_conf\<lparr>is_violation_door_warn := True\<rparr>)
        (EXCEPTION_PLACEHOLDER example_magic) = ([], Inr ''Any'')
   \<and> is_hint_ignorable example_env ''Any''
   \<and> fst (make_func_raiser example_magic example_env ''Any''
            (example_conf\<lparr>is_violation_door_warn := True\<rparr>) initial_state)
       = Inr FuncCheckerIgnorable
   \<and> (\<forall>run. call_checker run (FuncCheckerIgnorable :: string checker) 0 PyNone = Returns_bool True)"
proof -
  have d: "die_unless_conf example_env (example_conf\<lparr>is_violation_door_warn := True\<rparr>) = ([], Inr ())"
    and sa: "sanify_hint_root_statement example_env ''Any''
        (example_conf\<lparr>is_violation_door_warn := True\<rparr>)
        (EXCEPTION_PLACEHOLDER example_magic) = ([], Inr ''Any'')"
    and ig: "is_hint_ignorable example_env ''Any''"
    by (simp_all add: example_env_def)
  from make_func_raiser_ignorable [where ?'v = PyObj, OF example_reachable_initial d sa ig]
  have 1: "fst (make_func_raiser example_magic example_env ''Any''
            (example_conf\<lparr>is_violation_door_warn := True\<rparr>) initial_state)
       = Inr FuncCheckerIgnorable"
    and 2: "\<forall>(run :: string \<Rightarrow> nat \<Rightarrow> PyObj \<Rightarrow> call_outcome) random_int obj.
           call_checker run FuncCheckerIgnorable random_int obj = Returns_bool True"
    by blast+
  from example_reachable_initial d sa ig 1 2 show ?thesis by blast
qed

lemma make_code_tester_check_refs:
  "make_check_expr env hint conf None = (ws, Inr (code_expr, func_scope, refs)) \<Longrightarrow>
   make_code_tester_check mg env hint conf =
     (ws, Inr (CODE_TESTER_CHECK_PREFIX mg @ code_expr, func_scope, refs))"
  by (simp add: make_code_tester_check_def)

lemma make_code_raiser_hint_object_check_refs:
  "make_check_expr env hint conf None = (ws, Inr (code_expr, func_scope, refs)) \<Longrightarrow>
   \<exists>func_code func_scope'. make_code_raiser_hint_object_check mg env hint conf =
     (ws, Inr (func_code, func_scope', refs))"
  by (simp add: make_code_raiser_hint_object_check_def Let_def split: prod.splits)

text \<open>
  Claim C2. In every reachable state, when the hint sanifies to an unignorable hint whose
  compiled check comes with a non-empty list of relative forward references, both
  \<open>make_func_tester\<close> and \<open>make_func_raiser\<close> raise an exception of the class
  \<open>BeartypeDecorHintForwardRefException\<close> (the specification's \<open>PortabilityError\<close>); no
  checker is returned, none is stored in a memo table and no function name is spent.
\<close>

theorem make_func_checker_forward_ref:
  assumes "reachable mg env s"
    and "die_unless_conf env conf = (ws1, Inr ())"
    and "sanify_hint_root_statement env hint conf (EXCEPTION_PLACEHOLDER mg) = (ws2, Inr hint')"
    and "\<not> is_hint_ignorable env hint'"
    and "make_check_expr env hint' conf None = (ws3, Inr (code_expr, func_scope, ref # refs))"
  shows "(\<exists>e s'. make_func_tester mg env hint conf s = (Inl e, s')
            \<and> exc_cls e = ''BeartypeDecorHintForwardRefException''
            \<and> tester_cache s' = tester_cache s \<and> raiser_cache s' = raiser_cache s
            \<and> func_checker_name_counter s' = func_checker_name_counter s)
       \<and> (\<exists>e s'. make_func_raiser mg env hint conf s = (Inl e, s')
            \<and> exc_cls e = ''BeartypeDecorHintForwardRefException''
            \<and> tester_cache s' = tester_cache s \<and> raiser_cache s' = raiser_cache s
            \<and> func_checker_name_counter s' = func_checker_name_counter s)"
proof -
  note t = make_code_tester_check_refs [OF assms(5), of mg]
  from make_code_raiser_hint_object_check_refs [OF assms(5), of mg]
  obtain func_code func_scope' where
    r: "make_code_raiser_hint_object_check mg env hint' conf = (ws3, Inr (func_code, func_scope', ref # refs))"
    by blast
  note tf = make_func_checker_refs [where mk = "make_code_tester_check mg env", OF assms(2-4) t]
  note rf = make_func_checker_refs [where mk = "make_code_raiser_hint_object_check mg env",
      OF assms(2-4) r]
  have tn: "tester_cache s (hint, conf) = None"
  proof (rule ccontr)
    assume "tester_cache s (hint, conf) \<noteq> None"
    then obtain chk where "tester_cache s (hint, conf) = Some chk" by auto
    from reachable_tester_cache [OF assms(1) this] obtain s0 s1 where
      "make_func_checker mg env hint conf (make_code_tester_check mg env)
         exception_prefix_default s0 = (Inr chk, s1)" by blast
    with tf [of exception_prefix_default s0] show False by auto
  qed
  have rn: "raiser_cache s (hint, conf) = None"
  proof (rule ccontr)
    assume "raiser_cache s (hint, conf) \<noteq> None"
    then obtain chk where "raiser_cache s (hint, conf) = Some chk" by auto
    from reachable_raiser_cache [OF assms(1) this] obtain s0 s1 where
      "make_func_checker mg env hint conf (make_code_raiser_hint_object_check mg env)
         exception_prefix_default s0 = (Inr chk, s1)" by blast
    with rf [of exception_prefix_default s0] show False by auto
  qed
  from tf [of exception_prefix_default s] obtain e1 where
    "make_func_checker mg env hint conf (make_code_tester_check mg env) exception_prefix_default s
       = (Inl e1, s\<lparr>make_code_check_calls := Suc (make_code_check_calls s)\<rparr>)"
    "exc_cls e1 = ''BeartypeDecorHintForwardRefException''" by blast
  with tn have 1: "\<exists>e s'. make_func_tester mg env hint conf s = (Inl e, s')
            \<and> exc_cls e = ''BeartypeDecorHintForwardRefException''
            \<and> tester_cache s' = tester_cache s \<and> raiser_cache s' = raiser_cache s
            \<and> func_checker_name_counter s' = func_checker_name_counter s"
    by (simp add: make_func_tester_miss)
  from rf [of exception_prefix_default s] obtain e2 where
    "make_func_checker mg env hint conf (make_code_raiser_hint_object_check mg env)
       exception_prefix_default s
       = (Inl e2, s\<lparr>make_code_check_calls := Suc (make_code_check_calls s)\<rparr>)"
    "exc_cls e2 = ''BeartypeDecorHintForwardRefException''" by blast
  with rn have 2: "\<exists>e s'. make_func_raiser mg env hint conf s = (Inl e, s')
            \<and> exc_cls e = ''BeartypeDecorHintForwardRefException''
            \<and> tester_cache s' = tester_cache s \<and> raiser_cache s' = raiser_cache s
            \<and> func_checker_name_counter s' = func_checker_name_counter s"
    by (simp add: make_func_raiser_miss)
  from 1 2 show ?thesis by blast
qed

theorem make_func_checker_forward_ref_witness:
  "reachable example_magic example_env initial_state
   \<and> die_unless_conf example_env example_conf = ([], Inr ())
   \<and> sanify_hint_root_statement example_env ''List[Foo]'' example_conf
        (EXCEPTION_PLACEHOLDER example_magic) = ([], Inr ''List[Foo]'')
   \<and> \<not> is_hint_ignorable example_env ''List[Foo]''
   \<and> make_check_expr example_env ''List[Foo]'' example_conf None
       = ([Warning ''DeprecationWarning'' ''$P hint deprecated''],
          Inr (''is_list(obj)'', Map.empty, [''Foo'']))
   \<and> (\<exists>e s'. make_func_tester example_magic example_env ''List[Foo]'' example_conf initial_state
          = (Inl e, s') \<and> exc_cls e = ''BeartypeDecorHintForwardRefException'')
   \<and> (\<exists>e s'. make_func_raiser example_magic example_env ''List[Foo]'' example_conf initial_state
          = (Inl e, s') \<and> exc_cls e = ''BeartypeDecorHintForwardRefException'')"
proof -
  have d: "die_unless_conf example_env example_conf = ([], Inr ())"
    and sa: "sanify_hint_root_statement example_env ''List[Foo]'' example_conf
        (EXCEPTION_PLACEHOLDER example_magic) = ([], Inr ''List[Foo]'')"
    and ig: "\<not> is_hint_ignorable example_env ''List[Foo]''"
    and mk: "make_check_expr example_env ''List[Foo]'' example_conf None
       = ([Warning ''DeprecationWarning'' ''$P hint deprecated''],
          Inr (''is_list(obj)'', Map.empty, [''Foo'']))"
    by (simp_all add: example_env_def)
  from make_func_checker_forward_ref [OF example_reachable_initial d sa ig mk]
  have "(\<exists>e s'. make_func_tester example_magic example_env ''List[Foo]'' example_conf initial_state
          = (Inl e, s') \<and> exc_cls e = ''BeartypeDecorHintForwardRefException'')
   \<and> (\<exists>e s'. make_func_raiser example_magic example_env ''List[Foo]'' example_conf initial_state
          = (Inl e, s') \<and> exc_cls e = ''BeartypeDecorHintForwardRefException'')"
    by blast
  with example_reachable_initial d sa ig mk show ?thesis by blast
qed

section \<open>Memoization and function names\<close>

text \<open>
  Claim C4. When \<open>make_func_tester(h, c)\<close> has returned a checker, calling it again with
  the same hint and configuration returns that same checker and changes nothing: no name
  is drawn from the counter, the code factory is not called, no warning is shown. The same
  holds in every later state of the process, whatever calls came in between.
\<close>

theorem make_func_tester_memoized:
  assumes "make_func_tester mg env hint conf s = (Inr chk, s')"
  shows "make_func_tester mg env hint conf s' = (Inr chk, s')
     \<and> (\<forall>t. later mg env s' t \<longrightarrow> make_func_tester mg env hint conf t = (Inr chk, t))"
proof -
  from make_func_tester_stores [OF assms]
  have c: "tester_cache s' (hint, conf) = Some chk" .
  then have "make_func_tester mg env hint conf s' = (Inr chk, s')"
    by (rule make_func_tester_hit)
  moreover have "make_func_tester mg env hint conf t = (Inr chk, t)" if "later mg env s' t" for t
    using later_tester_cache_kept [OF that c] by (rule make_func_tester_hit)
  ultimately show ?thesis by blast
qed

lemma digit_char_0: "digit_char 0 = CHR ''0''"
  by code_simp

lemma digit_char_1: "digit_char (Suc 0) = CHR ''1''"
  by code_simp

lemmas example_defs =
  make_func_tester_def make_func_raiser_def callable_cached_def
  make_func_checker_def make_func_checker_block_def make_func_checker_code_def
  make_code_tester_check_def make_code_raiser_hint_object_check_def
  make_code_raiser_violation_def
  get_hint_pep484585_ref_names_relative_to_def reraise_exception_placeholder_def
  reissue_warnings_placeholder_def exception_prefix_default_def
  example_env_def example_magic_def example_conf_def initial_state_def
  func_checker_name_def str_nat_small digit_char_0 digit_char_1 Let_def

lemma example_tester_int:
  "make_func_tester example_magic example_env ''int'' example_conf initial_state =
     (Inr (FuncChecker ''chk_0''),
      \<lparr>func_checker_name_counter = 1, warnings_shown = [], make_code_check_calls = 1,
       tester_cache = [(''int'', example_conf) \<mapsto> FuncChecker ''chk_0''],
       raiser_cache = Map.empty\<rparr>)"
  by (simp add: example_defs)

theorem make_func_tester_memoized_witness:
  "make_func_tester example_magic example_env ''int'' example_conf initial_state =
     (Inr (FuncChecker ''chk_0''),
      \<lparr>func_checker_name_counter = 1, warnings_shown = [], make_code_check_calls = 1,
       tester_cache = [(''int'', example_conf) \<mapsto> FuncChecker ''chk_0''],
       raiser_cache = Map.empty\<rparr>)
   \<and> make_func_tester example_magic example_env ''int'' example_conf
       \<lparr>func_checker_name_counter = 1, warnings_shown = [], make_code_check_calls = 1,
        tester_cache = [(''int'', example_conf) \<mapsto> FuncChecker ''chk_0''],
        raiser_cache = Map.empty\<rparr> =
     (Inr (FuncChecker ''chk_0''),
      \<lparr>func_checker_name_counter = 1, warnings_shown = [], make_code_check_calls = 1,
       tester_cache = [(''int'', example_conf) \<mapsto> FuncChecker ''chk_0''],
       raiser_cache = Map.empty\<rparr>)"
  using make_func_tester_memoized [OF example_tester_int] example_tester_int by blast

text \<open>
  Claim C8. A call of \<open>_make_func_checker\<close> that returns a synthesized function made it
  under the name formed from the prefix and the counter's value at the call, and leaves the
  counter one higher. The counter never decreases along a run of the process, so of two
  such calls, the second in any later state, the first has the smaller number and the two
  names differ: a name is never used twice.
\<close>

theorem func_checker_names_never_reused:
  assumes "make_func_checker mg env hint1 conf1 mk1 p1 s1 = (Inr (FuncChecker f1), s1')"
    and "later mg env s1' s2"
    and "make_func_checker mg env hint2 conf2 mk2 p2 s2 = (Inr (FuncChecker f2), s2')"
  shows "\<exists>n1 n2 code1 scope1 ws1 code2 scope2 ws2.
      n1 = func_checker_name_counter s1 \<and> n2 = func_checker_name_counter s2
    \<and> func_checker_name_counter s1' = Suc n1 \<and> func_checker_name_counter s2' = Suc n2
    \<and> make_func env (FUNC_CHECKER_NAME_PREFIX mg @ str_nat n1) code1 scope1
         ''die_if_unbearable() or is_bearable() type-checker'' (is_debug conf1) = (ws1, Inr f1)
    \<and> make_func env (FUNC_CHECKER_NAME_PREFIX mg @ str_nat n2) code2 scope2
         ''die_if_unbearable() or is_bearable() type-checker'' (is_debug conf2) = (ws2, Inr f2)
    \<and> n1 < n2
    \<and> FUNC_CHECKER_NAME_PREFIX mg @ str_nat n1 \<noteq> FUNC_CHECKER_NAME_PREFIX mg @ str_nat n2"
proof -
  from make_func_checker_FuncChecker [OF assms(1)] obtain code1 scope1 ws1 where
    1: "make_func env (func_checker_name mg (func_checker_name_counter s1)) code1 scope1
         ''die_if_unbearable() or is_bearable() type-checker'' (is_debug conf1) = (ws1, Inr f1)"
    and c1: "func_checker_name_counter s1' = Suc (func_checker_name_counter s1)"
    by blast
  from make_func_checker_FuncChecker [OF assms(3)] obtain code2 scope2 ws2 where
    2: "make_func env (func_checker_name mg (func_checker_name_counter s2)) code2 scope2
         ''die_if_unbearable() or is_bearable() type-checker'' (is_debug conf2) = (ws2, Inr f2)"
    and c2: "func_checker_name_counter s2' = Suc (func_checker_name_counter s2)"
    by blast
  from later_counter [OF assms(2)] c1
  have lt: "func_checker_name_counter s1 < func_checker_name_counter s2" by simp
  then have ne: "func_checker_name mg (func_checker_name_counter s1)
      \<noteq> func_checker_name mg (func_checker_name_counter s2)"
    by (simp add: func_checker_name_inj)
  from 1 2 c1 c2 lt ne show ?thesis
    unfolding func_checker_name_def by blast
qed

lemma example_checker_int:
  "make_func_checker example_magic example_env ''int'' example_conf
     (make_code_tester_check example_magic example_env) exception_prefix_default initial_state =
     (Inr (FuncChecker ''chk_0''),
      \<lparr>func_checker_name_counter = 1, warnings_shown = [], make_code_check_calls = 1,
       tester_cache = Map.empty, raiser_cache = Map.empty\<rparr>)"
  by (simp add: example_defs)

lemma example_checker_str:
  "make_func_checker example_magic example_env ''str'' example_conf
     (make_code_tester_check example_magic example_env) exception_prefix_default
     \<lparr>func_checker_name_counter = 1, warnings_shown = [], make_code_check_calls = 1,
       tester_cache = Map.empty, raiser_cache = Map.empty\<rparr> =
     (Inr (FuncChecker ''chk_1''),
      \<lparr>func_checker_name_counter = 2, warnings_shown = [], make_code_check_calls = 2,
       tester_cache = Map.empty, raiser_cache = Map.empty\<rparr>)"
  by (simp add: example_defs)

theorem func_checker_names_never_reused_witness:
  "make_func_checker example_magic example_env ''int'' example_conf
     (make_code_tester_check example_magic example_env) exception_prefix_default initial_state =
     (Inr (FuncChecker ''chk_0''),
      \<lparr>func_checker_name_counter = 1, warnings_shown = [], make_code_check_calls = 1,
       tester_cache = Map.empty, raiser_cache = Map.empty\<rparr>)
   \<and> later example_magic example_env
       \<lparr>func_checker_name_counter = 1, warnings_shown = [], make_code_check_calls = 1,
        tester_cache = Map.empty, raiser_cache = Map.empty\<rparr>
       \<lparr>func_checker_name_counter = 1, warnings_shown = [], make_code_check_calls = 1,
        tester_cache = Map.empty, raiser_cache = Map.empty\<rparr>
   \<and> make_func_checker example_magic example_env ''str'' example_conf
     (make_code_tester_check example_magic example_env) exception_prefix_default
     \<lparr>func_checker_name_counter = 1, warnings_shown = [], make_code_check_calls = 1,
       tester_cache = Map.empty, raiser_cache = Map.empty\<rparr> =
     (Inr (FuncChecker ''chk_1''),
      \<lparr>func_checker_name_counter = 2, warnings_shown = [], make_code_check_calls = 2,
       tester_cache = Map.empty, raiser_cache = Map.empty\<rparr>)
   \<and> FUNC_CHECKER_NAME_PREFIX example_magic @ str_nat 0
       \<noteq> FUNC_CHECKER_NAME_PREFIX example_magic @ str_nat 1"
proof -
  have l: "later example_magic example_env
       \<lparr>func_checker_name_counter = 1, warnings_shown = [], make_code_check_calls = 1,
        tester_cache = Map.empty, raiser_cache = Map.empty\<rparr>
       (\<lparr>func_checker_name_counter = 1, warnings_shown = [], make_code_check_calls = 1,
        tester_cache = Map.empty, raiser_cache = Map.empty\<rparr> :: (string, string) state)"
    by (rule later_refl)
  from func_checker_names_never_reused [OF example_checker_int l example_checker_str]
  have "FUNC_CHECKER_NAME_PREFIX example_magic @ str_nat 0
       \<noteq> FUNC_CHECKER_NAME_PREFIX example_magic @ str_nat 1"
    by (auto simp: initial_state_def)
  with example_checker_int l example_checker_str show ?thesis by blast
qed

section \<open>Exceptions and warnings of a request\<close>








lemma catch_warnings_record_subset:
  "set (catch_warnings_record lets_through emitted_before ws) \<subseteq> set ws"
  by (induction ws arbitrary: emitted_before) auto

lemma catch_warnings_record_length:
  "length (catch_warnings_record lets_through emitted_before ws) \<le> length ws"
  by (induction ws arbitrary: emitted_before) (auto simp: le_SucI)

lemma catch_warnings_record_all:
  "(\<And>seen w. lets_through seen w) \<Longrightarrow>
   catch_warnings_record lets_through emitted_before ws = ws"
  by (induction ws arbitrary: emitted_before) auto

text \<open>
  Claim C7, as amended. When \<open>_make_func_checker\<close> ends by returning a synthesized
  function, the warnings that validation, sanification, the code factory, the signature
  factory and \<open>make_func\<close> emitted and that the warning filters in force let the
  \<open>catch_warnings\<close> block record are reissued once each, in the order recorded, after
  \<open>make_func\<close> has returned, each with the placeholder in its message replaced by the
  prefix describing the call site; a warning the filters drop is not reissued. When it
  raises, the warnings recorded until then are not reissued: the warnings issued to the
  caller are those issued before the request.
\<close>

theorem make_func_checker_reissues_warnings:
  "(make_func_checker mg env hint conf mk p s = (Inr (FuncChecker f), s') \<longrightarrow>
      (\<exists>ws1 ws2 hint' ws3 code_check func_scope ws4 code_signature ws5.
          die_unless_conf env conf = (ws1, Inr ())
        \<and> sanify_hint_root_statement env hint conf (EXCEPTION_PLACEHOLDER mg) = (ws2, Inr hint')
        \<and> mk hint' conf = (ws3, Inr (code_check, func_scope, []))
        \<and> make_func_signature env (func_checker_name mg (func_checker_name_counter s))
            func_scope (CODE_CHECKER_SIGNATURE mg) conf = (ws4, Inr code_signature)
        \<and> make_func env (func_checker_name mg (func_checker_name_counter s))
            (code_signature @ code_check) func_scope
            ''die_if_unbearable() or is_bearable() type-checker'' (is_debug conf) = (ws5, Inr f)
        \<and> warnings_shown s' = warnings_shown s
            @ map (\<lambda>w. Warning (warn_cls w)
                          (str_replace (EXCEPTION_PLACEHOLDER mg) p (warn_msg w)))
                (catch_warnings_record (warning_filter env) []
                   (ws1 @ ws2 @ ws3 @ ws4 @ ws5))))
   \<and> (make_func_checker mg env hint conf mk p s = (Inl e, s') \<longrightarrow>
        warnings_shown s' = warnings_shown s)"
proof (intro conjI impI)
  assume "make_func_checker mg env hint conf mk p s = (Inr (FuncChecker f), s')"
  from make_func_checker_FuncChecker [OF this]
  show "\<exists>ws1 ws2 hint' ws3 code_check func_scope ws4 code_signature ws5.
          die_unless_conf env conf = (ws1, Inr ())
        \<and> sanify_hint_root_statement env hint conf (EXCEPTION_PLACEHOLDER mg) = (ws2, Inr hint')
        \<and> mk hint' conf = (ws3, Inr (code_check, func_scope, []))
        \<and> make_func_signature env (func_checker_name mg (func_checker_name_counter s))
            func_scope (CODE_CHECKER_SIGNATURE mg) conf = (ws4, Inr code_signature)
        \<and> make_func env (func_checker_name mg (func_checker_name_counter s))
            (code_signature @ code_check) func_scope
            ''die_if_unbearable() or is_bearable() type-checker'' (is_debug conf) = (ws5, Inr f)
        \<and> warnings_shown s' = warnings_shown s
            @ map (\<lambda>w. Warning (warn_cls w)
                          (str_replace (EXCEPTION_PLACEHOLDER mg) p (warn_msg w)))
                (catch_warnings_record (warning_filter env) []
                   (ws1 @ ws2 @ ws3 @ ws4 @ ws5))"
    unfolding reissue_warnings_placeholder_def
    by (elim exE conjE) (intro exI conjI, simp_all)
next
  assume "make_func_checker mg env hint conf mk p s = (Inl e, s')"
  from make_func_checker_Inl [OF this] show "warnings_shown s' = warnings_shown s" by blast
qed

lemma example_checker_list_int:
  "make_func_checker example_magic example_env ''List[int]'' example_conf
     (make_code_tester_check example_magic example_env) exception_prefix_default initial_state =
     (Inr (FuncChecker ''chk_0''),
      \<lparr>func_checker_name_counter = 1,
       warnings_shown = [Warning ''DeprecationWarning''
                           ''die_if_unbearable() or is_bearable() hint deprecated''],
       make_code_check_calls = 1, tester_cache = Map.empty, raiser_cache = Map.empty\<rparr>)"
  by (simp add: example_defs)

lemma example_checker_list_int_ignored:
  "make_func_checker example_magic
     (example_env\<lparr>warning_filter := (\<lambda>emitted_before w. warn_cls w \<noteq> ''DeprecationWarning'')\<rparr>)
     ''List[int]'' example_conf
     (make_code_tester_check example_magic example_env) exception_prefix_default initial_state =
     (Inr (FuncChecker ''chk_0''),
      \<lparr>func_checker_name_counter = 1, warnings_shown = [],
       make_code_check_calls = 1, tester_cache = Map.empty, raiser_cache = Map.empty\<rparr>)"
  by (simp add: example_defs)

lemma example_checker_list_foo:
  "make_func_checker example_magic example_env ''List[Foo]'' example_conf
     (make_code_tester_check example_magic example_env) exception_prefix_default initial_state =
     (Inl (Exc ''BeartypeDecorHintForwardRefException'' True
        ''die_if_unbearable() or is_bearable() type hint List[Foo] relative forward reference Foo unresolvable.''),
      \<lparr>func_checker_name_counter = 0, warnings_shown = [], make_code_check_calls = 1,
       tester_cache = Map.empty, raiser_cache = Map.empty\<rparr>)"
  by (simp add: example_defs)

theorem make_func_checker_reissues_warnings_witness:
  "make_func_checker example_magic example_env ''List[int]'' example_conf
     (make_code_tester_check example_magic example_env) exception_prefix_default initial_state =
     (Inr (FuncChecker ''chk_0''),
      \<lparr>func_checker_name_counter = 1,
       warnings_shown = [Warning ''DeprecationWarning''
                           ''die_if_unbearable() or is_bearable() hint deprecated''],
       make_code_check_calls = 1, tester_cache = Map.empty, raiser_cache = Map.empty\<rparr>)
   \<and> (\<exists>ws. [Warning ''DeprecationWarning'' ''die_if_unbearable() or is_bearable() hint deprecated'']
          = map (\<lambda>w. Warning (warn_cls w)
                  (str_replace (EXCEPTION_PLACEHOLDER example_magic) exception_prefix_default
                     (warn_msg w)))
              (catch_warnings_record (warning_filter example_env) [] ws))
   \<and> make_func_checker example_magic
     (example_env\<lparr>warning_filter := (\<lambda>emitted_before w. warn_cls w \<noteq> ''DeprecationWarning'')\<rparr>)
     ''List[int]'' example_conf
     (make_code_tester_check example_magic example_env) exception_prefix_default initial_state =
     (Inr (FuncChecker ''chk_0''),
      \<lparr>func_checker_name_counter = 1, warnings_shown = [],
       make_code_check_calls = 1, tester_cache = Map.empty, raiser_cache = Map.empty\<rparr>)
   \<and> (\<exists>ws. [] = map (\<lambda>w. Warning (warn_cls w)
                  (str_replace (EXCEPTION_PLACEHOLDER example_magic) exception_prefix_default
                     (warn_msg w)))
              (catch_warnings_record (\<lambda>emitted_before w. warn_cls w \<noteq> ''DeprecationWarning'') []
                 ws)
          \<and> ws = [Warning ''DeprecationWarning'' ''$P hint deprecated''])
   \<and> make_func_checker example_magic example_env ''List[Foo]'' example_conf
     (make_code_tester_check example_magic example_env) exception_prefix_default initial_state =
     (Inl (Exc ''BeartypeDecorHintForwardRefException'' True
        ''die_if_unbearable() or is_bearable() type hint List[Foo] relative forward reference Foo unresolvable.''),
      \<lparr>func_checker_name_counter = 0, warnings_shown = [], make_code_check_calls = 1,
       tester_cache = Map.empty, raiser_cache = Map.empty\<rparr>)
   \<and> warnings_shown (\<lparr>func_checker_name_counter = 0, warnings_shown = [], make_code_check_calls = 1,
       tester_cache = Map.empty, raiser_cache = Map.empty\<rparr> :: (string, string) state)
       = warnings_shown (initial_state :: (string, string) state)"
proof -
  from make_func_checker_reissues_warnings [THEN conjunct1, rule_format, OF example_checker_list_int]
  have 1: "\<exists>ws. [Warning ''DeprecationWarning'' ''die_if_unbearable() or is_bearable() hint deprecated'']
          = map (\<lambda>w. Warning (warn_cls w)
                  (str_replace (EXCEPTION_PLACEHOLDER example_magic) exception_prefix_default
                     (warn_msg w)))
              (catch_warnings_record (warning_filter example_env) [] ws)"
    by (elim exE conjE)
      (rule_tac x = "ws1 @ ws2 @ ws3 @ ws4 @ ws5" in exI, simp add: initial_state_def)
  from make_func_checker_reissues_warnings [THEN conjunct1, rule_format,
      OF example_checker_list_int_ignored]
  have 2: "\<exists>ws. [] = map (\<lambda>w. Warning (warn_cls w)
                  (str_replace (EXCEPTION_PLACEHOLDER example_magic) exception_prefix_default
                     (warn_msg w)))
              (catch_warnings_record (\<lambda>emitted_before w. warn_cls w \<noteq> ''DeprecationWarning'') []
                 ws)
          \<and> ws = [Warning ''DeprecationWarning'' ''$P hint deprecated'']"
    by (elim exE conjE)
      (rule_tac x = "ws1 @ ws2 @ ws3 @ ws4 @ ws5" in exI,
       auto simp: initial_state_def example_env_def make_code_tester_check_def
            split: if_splits)
  from make_func_checker_reissues_warnings [THEN conjunct2, rule_format, OF example_checker_list_foo]
  have 3: "warnings_shown (\<lparr>func_checker_name_counter = 0, warnings_shown = [], make_code_check_calls = 1,
       tester_cache = Map.empty, raiser_cache = Map.empty\<rparr> :: (string, string) state)
       = warnings_shown (initial_state :: (string, string) state)" .
  from example_checker_list_int 1 example_checker_list_int_ignored 2 example_checker_list_foo 3
  show ?thesis by blast
qed

text \<open>
  Claim C7 as first stated (no recorded warning is ever swallowed) fails: compiling
  \<open>List[Foo]\<close> emits a deprecation warning, which the filters let the block record, and
  then the request raises for the relative forward reference; the warning is issued to
  nobody.
\<close>

theorem make_func_tester_warning_lost:
  "make_code_tester_check example_magic example_env ''List[Foo]'' example_conf =
     ([Warning ''DeprecationWarning'' ''$P hint deprecated''],
      Inr (''return is_list(obj)'', Map.empty, [''Foo'']))
   \<and> catch_warnings_record (warning_filter example_env) []
       [Warning ''DeprecationWarning'' ''$P hint deprecated'']
     = [Warning ''DeprecationWarning'' ''$P hint deprecated'']
   \<and> make_func_tester example_magic example_env ''List[Foo]'' example_conf initial_state =
     (Inl (Exc ''BeartypeDecorHintForwardRefException'' True
        ''die_if_unbearable() or is_bearable() type hint List[Foo] relative forward reference Foo unresolvable.''),
      \<lparr>func_checker_name_counter = 0, warnings_shown = [], make_code_check_calls = 1,
       tester_cache = Map.empty, raiser_cache = Map.empty\<rparr>)"
  by (simp add: example_defs)

section \<open>Repeated checks of the same object\<close>

lemma compiled_check_random_free:
  "all_mode \<or> \<not> has_container h \<Longrightarrow>
   compiled_check all_mode external r1 h obj = compiled_check all_mode external r2 h obj"
proof (induction h arbitrary: obj)
  case (Union members)
  then show ?case by auto
next
  case (Container origin element_hint)
  then show ?case by auto
qed simp_all

lemma compiled_check_all_implies_sampled:
  "compiled_check True external r1 h obj \<Longrightarrow> compiled_check False external r2 h obj"
proof (induction h arbitrary: obj)
  case (Union members)
  then show ?case by auto
next
  case (Container origin element_hint)
  show ?case
  proof (cases "py_items obj = []")
    case True
    with Container.prems show ?thesis by simp
  next
    case False
    then have "py_items obj ! (r2 mod length (py_items obj)) \<in> set (py_items obj)"
      by (simp add: nth_mem)
    with Container.prems Container.IH show ?thesis by simp
  qed
qed simp_all

text \<open>
  Claim C5, as amended. Two calls of \<open>make_func_tester\<close> with the same hint and
  configuration return the same tester, and applied to the same object the two return the
  same boolean whenever the configuration selects the mode that checks every element, or
  the hint the tester was made for has no container in it, or the random integers drawn
  for the two applications are equal. (In the sampling mode a container check looks at the
  one element the random integer of the call picks.)
\<close>

theorem make_func_tester_same_boolean:
  assumes "make_func_tester mg env hint conf s = (Inr chk, s')"
    and "make_func_tester mg env hint conf s' = (Inr chk', s'')"
    and "all_mode \<or> r1 = r2 \<or> (\<forall>f. chk = FuncChecker f \<longrightarrow> \<not> has_container (hint_of f))"
  shows "chk' = chk
    \<and> call_checker (tester_run all_mode external hint_of) chk r1 obj
      = call_checker (tester_run all_mode external hint_of) chk' r2 obj"
proof -
  from make_func_tester_hit [OF make_func_tester_stores [OF assms(1)], of mg env] assms(2)
  have eq: "chk' = chk" by simp
  show ?thesis
  proof (cases chk)
    case FuncCheckerIgnorable
    with eq show ?thesis by (simp add: call_checker_def)
  next
    case (FuncChecker f)
    from assms(3) FuncChecker
    consider "all_mode \<or> \<not> has_container (hint_of f)" | "r1 = r2" by blast
    then have "compiled_check all_mode external r1 (hint_of f) obj
        = compiled_check all_mode external r2 (hint_of f) obj"
    proof cases
      case 1
      then show ?thesis by (rule compiled_check_random_free)
    next
      case 2
      then show ?thesis by simp
    qed
    with eq FuncChecker show ?thesis by (simp add: call_checker_def tester_run_def)
  qed
qed

lemma example_tester_list_int:
  "make_func_tester example_magic example_env ''List[int]'' example_conf initial_state =
     (Inr (FuncChecker ''chk_0''),
      \<lparr>func_checker_name_counter = 1,
       warnings_shown = [Warning ''DeprecationWarning''
                           ''die_if_unbearable() or is_bearable() hint deprecated''],
       make_code_check_calls = 1,
       tester_cache = [(''List[int]'', example_conf) \<mapsto> FuncChecker ''chk_0''],
       raiser_cache = Map.empty\<rparr>)"
  by (simp add: example_defs)

lemma example_tester_list_int_again:
  "make_func_tester example_magic example_env ''List[int]'' example_conf
     \<lparr>func_checker_name_counter = 1,
       warnings_shown = [Warning ''DeprecationWarning''
                           ''die_if_unbearable() or is_bearable() hint deprecated''],
       make_code_check_calls = 1,
       tester_cache = [(''List[int]'', example_conf) \<mapsto> FuncChecker ''chk_0''],
       raiser_cache = Map.empty\<rparr> =
     (Inr (FuncChecker ''chk_0''),
      \<lparr>func_checker_name_counter = 1,
       warnings_shown = [Warning ''DeprecationWarning''
                           ''die_if_unbearable() or is_bearable() hint deprecated''],
       make_code_check_calls = 1,
       tester_cache = [(''List[int]'', example_conf) \<mapsto> FuncChecker ''chk_0''],
       raiser_cache = Map.empty\<rparr>)"
  by (simp add: make_func_tester_def callable_cached_def)

theorem make_func_tester_same_boolean_witness:
  "make_func_tester example_magic example_env ''List[int]'' example_conf initial_state =
     (Inr (FuncChecker ''chk_0''),
      \<lparr>func_checker_name_counter = 1,
       warnings_shown = [Warning ''DeprecationWarning''
                           ''die_if_unbearable() or is_bearable() hint deprecated''],
       make_code_check_calls = 1,
       tester_cache = [(''List[int]'', example_conf) \<mapsto> FuncChecker ''chk_0''],
       raiser_cache = Map.empty\<rparr>)
   \<and> call_checker (tester_run True (\<lambda>h v. False) (\<lambda>f. Container ''list'' (SimpleType ''int'')))
        (FuncChecker ''chk_0'') 0 (PyList [PyInt 1, PyStr ''a''])
     = call_checker (tester_run True (\<lambda>h v. False) (\<lambda>f. Container ''list'' (SimpleType ''int'')))
        (FuncChecker ''chk_0'') 1 (PyList [PyInt 1, PyStr ''a''])
   \<and> call_checker (tester_run True (\<lambda>h v. False) (\<lambda>f. Container ''list'' (SimpleType ''int'')))
        (FuncChecker ''chk_0'') 1 (PyList [PyInt 1, PyStr ''a'']) = Returns_bool False"
proof -
  have m: "True \<or> (0::nat) = 1 \<or> (\<forall>f. FuncChecker ''chk_0'' = FuncChecker f \<longrightarrow>
      \<not> has_container ((\<lambda>f. Container ''list'' (SimpleType ''int'')) f))"
    by simp
  from make_func_tester_same_boolean [OF example_tester_list_int example_tester_list_int_again m,
      of "\<lambda>h v. False" "PyList [PyInt 1, PyStr ''a'']"]
  have 1: "call_checker (tester_run True (\<lambda>h v. False) (\<lambda>f. Container ''list'' (SimpleType ''int'')))
        (FuncChecker ''chk_0'') 0 (PyList [PyInt 1, PyStr ''a''])
     = call_checker (tester_run True (\<lambda>h v. False) (\<lambda>f. Container ''list'' (SimpleType ''int'')))
        (FuncChecker ''chk_0'') 1 (PyList [PyInt 1, PyStr ''a''])"
    by simp
  have 2: "call_checker (tester_run True (\<lambda>h v. False) (\<lambda>f. Container ''list'' (SimpleType ''int'')))
        (FuncChecker ''chk_0'') 1 (PyList [PyInt 1, PyStr ''a'']) = Returns_bool False"
    by (simp add: call_checker_def tester_run_def)
  from example_tester_list_int 1 2 show ?thesis by blast
qed

text \<open>
  Claim C5 as first stated fails in the sampling mode: the tester made for a list of
  integers accepts the list \<open>[1, "a"]\<close> when the random integer of the call picks the first
  element and rejects it when the random integer picks the second.
\<close>

theorem make_func_tester_booleans_differ:
  "make_func_tester example_magic example_env ''List[int]'' example_conf initial_state =
     (Inr (FuncChecker ''chk_0''),
      \<lparr>func_checker_name_counter = 1,
       warnings_shown = [Warning ''DeprecationWarning''
                           ''die_if_unbearable() or is_bearable() hint deprecated''],
       make_code_check_calls = 1,
       tester_cache = [(''List[int]'', example_conf) \<mapsto> FuncChecker ''chk_0''],
       raiser_cache = Map.empty\<rparr>)
   \<and> make_func_tester example_magic example_env ''List[int]'' example_conf
     \<lparr>func_checker_name_counter = 1,
       warnings_shown = [Warning ''DeprecationWarning''
                           ''die_if_unbearable() or is_bearable() hint deprecated''],
       make_code_check_calls = 1,
       tester_cache = [(''List[int]'', example_conf) \<mapsto> FuncChecker ''chk_0''],
       raiser_cache = Map.empty\<rparr> =
     (Inr (FuncChecker ''chk_0''),
      \<lparr>func_checker_name_counter = 1,
       warnings_shown = [Warning ''DeprecationWarning''
                           ''die_if_unbearable() or is_bearable() hint deprecated''],
       make_code_check_calls = 1,
       tester_cache = [(''List[int]'', example_conf) \<mapsto> FuncChecker ''chk_0''],
       raiser_cache = Map.empty\<rparr>)
   \<and> call_checker (tester_run False (\<lambda>h v. False) (\<lambda>f. Container ''list'' (SimpleType ''int'')))
        (FuncChecker ''chk_0'') 0 (PyList [PyInt 1, PyStr ''a'']) = Returns_bool True
   \<and> call_checker (tester_run False (\<lambda>h v. False) (\<lambda>f. Container ''list'' (SimpleType ''int'')))
        (FuncChecker ''chk_0'') 1 (PyList [PyInt 1, PyStr ''a'']) = Returns_bool False"
  using example_tester_list_int example_tester_list_int_again
  by (simp add: call_checker_def tester_run_def)

end
